theory Spec2Isabelle
  imports Main
begin

section \<open>Python values and errors\<close>

text \<open>
  A \<^verbatim>\<open>str\<close> is a sequence of Unicode code points. A text of ASCII characters is
  written \<open>str ''...''\<close>.
\<close>

type_synonym pystr = "nat list"

definition str :: "string \<Rightarrow> pystr" where
  "str s = map of_char s"

text \<open>
  The fragment of Python's values that \<^verbatim>\<open>kep/spec.py\<close> handles: strings, the
  booleans (\<^verbatim>\<open>False\<close> is the default of every optional argument), \<^verbatim>\<open>None\<close>, lists and
  tuples. On this fragment Python's \<^verbatim>\<open>==\<close> is structural equality.
\<close>

datatype pyval =
    PStr pystr
  | PBool bool
  | PNone
  | PList "pyval list"
  | PTuple "pyval list"

text \<open>
  The payload of a \<^verbatim>\<open>ValueError\<close>. Messages built with \<^verbatim>\<open>str.format\<close> from an
  arbitrary value keep the value instead of its printed form.
\<close>

datatype message =
    VariableAlreadyDefined pyval  \<comment> \<open>\<^verbatim>\<open>"Variable name <{}> already defined"\<close>\<close>
  | UnitNotDefined pyval          \<comment> \<open>\<^verbatim>\<open>"Unit <{}> not defined"\<close>\<close>
  | Text pystr                    \<comment> \<open>a literal message\<close>
  | Arg pyval                     \<comment> \<open>\<^verbatim>\<open>ValueError(funcname)\<close>\<close>
  | MultipleEntries "pystr list"  \<comment> \<open>the ambiguity error of variable resolution\<close>

datatype error =
    ValueError message
  | TypeError
  | IndexError
  | AttributeError

text \<open>Lists are unhashable; a tuple is hashable when all its items are.\<close>

fun hashable :: "pyval \<Rightarrow> bool" where
  "hashable (PStr s) = True"
| "hashable (PBool b) = True"
| "hashable PNone = True"
| "hashable (PList xs) = False"
| "hashable (PTuple xs) = list_all hashable xs"

text \<open>Truth value of an object, as \<^verbatim>\<open>if x:\<close> tests it.\<close>

fun truthy :: "pyval \<Rightarrow> bool" where
  "truthy (PStr s) = (s \<noteq> [])"
| "truthy (PBool b) = b"
| "truthy PNone = False"
| "truthy (PList xs) = (xs \<noteq> [])"
| "truthy (PTuple xs) = (xs \<noteq> [])"

section \<open>Ordered dictionaries\<close>

text \<open>
  An \<^verbatim>\<open>OrderedDict\<close> (and a \<^verbatim>\<open>dict\<close>) is the list of its items in insertion order.
  Assigning to a key that is present keeps its position and replaces its value; a new key
  goes to the end. A key that is not hashable raises \<^verbatim>\<open>TypeError\<close>.
\<close>

type_synonym odict = "(pyval \<times> pyval) list"

fun odict_setitem :: "pyval \<Rightarrow> pyval \<Rightarrow> odict \<Rightarrow> odict" where
  "odict_setitem k v [] = [(k, v)]"
| "odict_setitem k v ((k', v') # d) =
     (if k' = k then (k', v) # d else (k', v') # odict_setitem k v d)"

fun odict_of_pairs :: "odict \<Rightarrow> (pyval \<times> pyval) list \<Rightarrow> error + odict" where
  "odict_of_pairs d [] = Inr d"
| "odict_of_pairs d ((k, v) # ps) =
     (if hashable k then odict_of_pairs (odict_setitem k v d) ps else Inl TypeError)"

fun odict_update :: "odict \<Rightarrow> odict \<Rightarrow> odict" where
  "odict_update d [] = d"
| "odict_update d ((k, v) # other) = odict_update (odict_setitem k v d) other"

definition odict_values :: "odict \<Rightarrow> pyval list" where
  "odict_values d = map snd d"

definition odict_get :: "odict \<Rightarrow> pyval \<Rightarrow> pyval option" where
  "odict_get d k = map_of d k"

section \<open>Module constants\<close>

text \<open>
  \<^verbatim>\<open>UNITS.values()\<close>: the unit codes of \<^verbatim>\<open>UNITS\<close> in declared order, one per entry.
  \<^verbatim>\<open>spec.py\<close> itself reads \<^verbatim>\<open>UNITS\<close> only through \<^verbatim>\<open>.values()\<close>; the keys are
  the header texts of the report.
\<close>

definition UNITS_values :: "pystr list" where
  "UNITS_values =
     [str ''bln_usd'', str ''bln_usd'', str ''bln_usd'', str ''bln_rub'', str ''bln_rub'', str ''rub'', str ''mln_rub'',
      str ''yoy'', str ''ytd'', str ''rog'', str ''rog'', str ''rog'',
      str ''ytd'',
      str ''yoy'', str ''yoy'', str ''rog'', str ''yoy'', str ''ytd'',
      str ''pct'', str ''gdp_percent'', str ''bln_tkm'',
      str ''rog'', str ''rog'', str ''rog'', str ''rog'', str ''rog'']"

fun as_list :: "pyval \<Rightarrow> error + pyval list" where
  "as_list (PStr s) = Inr [PStr s]"
| "as_list (PList xs) = Inr xs"
| "as_list (PTuple xs) = Inr xs"
| "as_list x = Inl TypeError"

section \<open>Statements that read and change an object\<close>

text \<open>
  A method body is a sequence of statements over the object \<^verbatim>\<open>self\<close>. A statement
  maps the object's state to its result, a value or the exception raised, and the state
  it leaves behind. When a statement raises, the rest of the body does not run and the
  state is the one reached at that point.
\<close>

type_synonym ('s, 'a) stmt = "'s \<Rightarrow> (error + 'a) \<times> 's"

definition ret :: "'a \<Rightarrow> ('s, 'a) stmt" where
  "ret x = (\<lambda>s. (Inr x, s))"

definition lift :: "error + 'a \<Rightarrow> ('s, 'a) stmt" where
  "lift r = (\<lambda>s. (r, s))"

definition gets :: "('s \<Rightarrow> 'a) \<Rightarrow> ('s, 'a) stmt" where
  "gets f = (\<lambda>s. (Inr (f s), s))"

definition modify :: "('s \<Rightarrow> 's) \<Rightarrow> ('s, unit) stmt" where
  "modify f = (\<lambda>s. (Inr (), f s))"

definition seq :: "('s, 'a) stmt \<Rightarrow> ('a \<Rightarrow> ('s, 'b) stmt) \<Rightarrow> ('s, 'b) stmt" where
  "seq m f = (\<lambda>s. case m s of (Inl e, s') \<Rightarrow> (Inl e, s') | (Inr x, s') \<Rightarrow> f x s')"

section \<open>ParsingInstruction\<close>

record ParsingInstruction =
  varname_mapper :: odict
  required_labels :: "(pyval \<times> pyval) list"
  descriptions :: odict

definition ParsingInstruction_init :: ParsingInstruction where
  "ParsingInstruction_init = \<lparr>varname_mapper = [], required_labels = [], descriptions = []\<rparr>"

text \<open>The loop of \<^verbatim>\<open>_verify_inputs\<close> over the required units.\<close>

fun verify_units :: "pyval list \<Rightarrow> error + unit" where
  "verify_units [] = Inr ()"
| "verify_units (ru # rus) =
     (if ru \<notin> set (map PStr UNITS_values) then Inl (ValueError (UnitNotDefined ru))
      else verify_units rus)"

definition verify_inputs :: "pyval \<Rightarrow> pyval \<Rightarrow> (ParsingInstruction, unit) stmt" where
  "verify_inputs varname required_units =
     seq (gets varname_mapper) (\<lambda>vm.
       if varname \<in> set (odict_values vm)
       then lift (Inl (ValueError (VariableAlreadyDefined varname)))
       else seq (lift (as_list required_units)) (\<lambda>rus. lift (verify_units rus)))"

text \<open>\<^verbatim>\<open>header_strings[0]\<close>\<close>

definition getitem0 :: "pyval list \<Rightarrow> error + pyval" where
  "getitem0 xs = (case xs of [] \<Rightarrow> Inl IndexError | x # _ \<Rightarrow> Inr x)"

text \<open>
  \<^verbatim>\<open>append(self, varname, text, required_units, desc=False)\<close>, statement by statement.
  A call that leaves \<^verbatim>\<open>desc\<close> out passes \<open>PBool False\<close>.
\<close>

definition ParsingInstruction_append ::
  "pyval \<Rightarrow> pyval \<Rightarrow> pyval \<Rightarrow> pyval \<Rightarrow> (ParsingInstruction, unit) stmt" where
  "ParsingInstruction_append varname text required_units desc =
     seq (verify_inputs varname required_units) (\<lambda>_.
     seq (lift (as_list text)) (\<lambda>header_strings.
     seq (if desc = PBool False then lift (getitem0 header_strings) else ret desc) (\<lambda>desc'.
     seq (lift (as_list required_units)) (\<lambda>required_units'.
     seq (lift (odict_of_pairs [] (map (\<lambda>hs. (hs, varname)) header_strings))) (\<lambda>vmapper.
     seq (ret (map (\<lambda>unit. (varname, unit)) required_units')) (\<lambda>required_labels'.
     seq (lift (odict_of_pairs [] [(varname, desc')])) (\<lambda>desc_dict.
     seq (modify (\<lambda>self. self\<lparr>varname_mapper := odict_update (varname_mapper self) vmapper\<rparr>)) (\<lambda>_.
     seq (modify (\<lambda>self. self\<lparr>required_labels := required_labels self @ required_labels'\<rparr>)) (\<lambda>_.
          modify (\<lambda>self. self\<lparr>descriptions := odict_update (descriptions self) desc_dict\<rparr>))))))))))"

section \<open>Row\<close>

text \<open>
  Modelled from the spec: the class \<^verbatim>\<open>Row\<close> of \<^verbatim>\<open>kep/rows.py\<close>, of which only the
  tests are at hand. By section 3 a row is one input line split into a label cell and the
  data cells after it; \<^verbatim>\<open>test_name_property\<close> and \<^verbatim>\<open>test_data_property\<close> name the
  two attributes.
\<close>

record Row =
  name :: pystr
  data :: "pystr list"

text \<open>\<^verbatim>\<open>str.startswith\<close> and the substring test \<^verbatim>\<open>pat in s\<close>.\<close>

fun startswith :: "pystr \<Rightarrow> pystr \<Rightarrow> bool" where
  "startswith s [] = True"
| "startswith [] (p # ps) = False"
| "startswith (c # cs) (p # ps) = (c = p \<and> startswith cs ps)"

fun contains :: "pystr \<Rightarrow> pystr \<Rightarrow> bool" where
  "contains [] pat = (pat = [])"
| "contains (c # cs) pat = (if startswith (c # cs) pat then True else contains cs pat)"

text \<open>
  Modelled from the spec: the quote normalization that \<^verbatim>\<open>Row.startswith\<close> of
  \<^verbatim>\<open>kep/rows.py\<close> applies to both texts. Section 8 and
  \<^verbatim>\<open>test_startswith_ignores_apostrophe\<close> fix the normal form: a label without quotes
  starts with the same text in quotes, so quote characters are dropped. Which characters
  are quote characters is the parameter \<open>quote\<close>.
\<close>

definition normalize :: "(nat \<Rightarrow> bool) \<Rightarrow> pystr \<Rightarrow> pystr" where
  "normalize quote s = filter (\<lambda>c. \<not> quote c) s"

text \<open>
  Modelled from the spec: the quote characters of \<^verbatim>\<open>Row.startswith\<close> of
  \<^verbatim>\<open>kep/rows.py\<close>. By section 4.3 straight and curly quotes match identically: the
  straight double quote U+0022 and the curly double quotes U+201C and U+201D.
\<close>

definition quote_character :: "nat \<Rightarrow> bool" where
  "quote_character c = (c = 0x22 \<or> c = 0x201C \<or> c = 0x201D)"

text \<open>
  Modelled from the spec: \<^verbatim>\<open>Row.startswith\<close> of \<^verbatim>\<open>kep/rows.py\<close>, the
  quote-normalizing prefix test of section 4.6: the row's label, with its quote characters
  normalized, begins with the text normalized the same way.
\<close>

definition Row_startswith :: "(nat \<Rightarrow> bool) \<Rightarrow> Row \<Rightarrow> pystr \<Rightarrow> bool" where
  "Row_startswith quote row text = startswith (normalize quote (name row)) (normalize quote text)"

text \<open>
  Modelled from the spec: \<^verbatim>\<open>Row.get_varname\<close> of \<^verbatim>\<open>kep/rows.py\<close>, the variable
  resolution of section 4.6: every mapping key is tested with the prefix test; no hit is
  "not found" (\<open>None\<close>), one hit is that key's variable, several hits are an error
  (a \<^verbatim>\<open>ValueError\<close> in \<^verbatim>\<open>test_get_varname\<close>).
\<close>

definition Row_get_varname ::
  "(nat \<Rightarrow> bool) \<Rightarrow> Row \<Rightarrow> (pystr \<times> pystr) list \<Rightarrow> error + pystr option" where
  "Row_get_varname quote row varname_mapper_dict =
     (case filter (\<lambda>(text, varname). Row_startswith quote row text) varname_mapper_dict of
        [] \<Rightarrow> Inr None
      | [(text, varname)] \<Rightarrow> Inr (Some varname)
      | hits \<Rightarrow> Inl (ValueError (MultipleEntries (map snd hits))))"

text \<open>
  Modelled from the spec: \<^verbatim>\<open>Row.get_unit\<close> of \<^verbatim>\<open>kep/rows.py\<close>, the unit resolution
  of sections 4.1 and 4.6: the patterns are scanned in declared order and the unit code of
  the first one found as a substring of the label is returned; \<open>None\<close> is "not found".
\<close>

fun Row_get_unit :: "Row \<Rightarrow> (pystr \<times> pystr) list \<Rightarrow> pystr option" where
  "Row_get_unit row [] = None"
| "Row_get_unit row ((text, unit) # units_mapper_dict) =
     (if contains (name row) text then Some unit else Row_get_unit row units_mapper_dict)"

section \<open>RowStack\<close>

text \<open>
  Modelled from the spec: the class \<^verbatim>\<open>RowStack\<close> of \<^verbatim>\<open>kep/rows.py\<close>, the store of
  the rows that remain (sections 3 and 4.7); \<^verbatim>\<open>remaining_rows\<close> returns what is left.
\<close>

record RowStack =
  rows :: "Row list"

definition remaining_rows :: "RowStack \<Rightarrow> Row list" where
  "remaining_rows self = rows self"

text \<open>
  Modelled from the spec: \<^verbatim>\<open>RowStack.pop\<close> of \<^verbatim>\<open>kep/rows.py\<close>, section 4.7: the
  remaining rows are scanned for the first row prefix-matching the start marker and the
  first row after it prefix-matching the end marker; the run from the start row to the row
  before the end marker's row is returned, and the remaining rows begin at the end marker's
  row. The spec does not say what happens when either marker is missing: the result is
  \<open>None\<close> there.
\<close>

definition RowStack_pop ::
  "(nat \<Rightarrow> bool) \<Rightarrow> pystr \<Rightarrow> pystr \<Rightarrow> RowStack \<Rightarrow> (Row list \<times> RowStack) option" where
  "RowStack_pop quote start en self =
     (case dropWhile (\<lambda>r. \<not> Row_startswith quote r start) (rows self) of
        [] \<Rightarrow> None
      | first # later \<Rightarrow>
          (case dropWhile (\<lambda>r. \<not> Row_startswith quote r en) later of
             [] \<Rightarrow> None
           | rest \<Rightarrow>
               Some (first # takeWhile (\<lambda>r. \<not> Row_startswith quote r en) later,
                     self\<lparr>rows := rest\<rparr>)))"

section \<open>Scope\<close>

text \<open>Each entry of \<^verbatim>\<open>__markers\<close> is the pair of its \<^verbatim>\<open>start\<close> and \<^verbatim>\<open>end\<close> lines.\<close>

record Scope =
  markers :: "(pystr \<times> pystr) list"

definition add_bounds :: "pystr \<Rightarrow> pystr \<Rightarrow> (Scope, unit) stmt" where
  "add_bounds start en =
     (if start \<noteq> [] \<and> en \<noteq> []
      then modify (\<lambda>self. self\<lparr>markers := markers self @ [(start, en)]\<rparr>)
      else lift (Inl (ValueError (Text (str ''Cannot accept empty line as Scope() boundary'')))))"

definition Scope_init :: "pystr \<Rightarrow> pystr \<Rightarrow> error + Scope" where
  "Scope_init start en =
     (case add_bounds start en \<lparr>markers = []\<rparr> of
        (Inl err, _) \<Rightarrow> Inl err
      | (Inr _, self) \<Rightarrow> Inr self)"

text \<open>
  \<^verbatim>\<open>_is_found\<close>: the rows are \<^verbatim>\<open>Row\<close> objects (\<^verbatim>\<open>pdef.get_bounds(self.rowstack.rows)\<close>),
  so \<^verbatim>\<open>r.startswith\<close> is the prefix test of \<^verbatim>\<open>Row\<close>.
\<close>

fun is_found :: "(nat \<Rightarrow> bool) \<Rightarrow> pystr \<Rightarrow> Row list \<Rightarrow> bool" where
  "is_found quote line [] = False"
| "is_found quote line (r # rs) =
     (if Row_startswith quote r line then True else is_found quote line rs)"

definition str_bool :: "bool \<Rightarrow> pystr" where
  "str_bool b = (if b then str ''True'' else str ''False'')"

definition found_line :: "bool \<Rightarrow> pystr \<Rightarrow> pystr" where
  "found_line b line = str ''is_found: '' @ str_bool b @ str '' <'' @ line @ str ''>''"

fun join :: "pystr \<Rightarrow> pystr list \<Rightarrow> pystr" where
  "join sep [] = []"
| "join sep [x] = x"
| "join sep (x # y # ys) = x @ sep @ join sep (y # ys)"

fun error_message_loop ::
  "(nat \<Rightarrow> bool) \<Rightarrow> Row list \<Rightarrow> (pystr \<times> pystr) list \<Rightarrow> pystr list \<Rightarrow> pystr list" where
  "error_message_loop quote rs [] msg = msg"
| "error_message_loop quote rs ((s, e) # ms) msg =
     error_message_loop quote rs ms
       ((msg @ [found_line (is_found quote s rs) s]) @ [found_line (is_found quote e rs) e])"

definition error_message :: "(nat \<Rightarrow> bool) \<Rightarrow> Scope \<Rightarrow> Row list \<Rightarrow> pystr" where
  "error_message quote self rs =
     join [0x0A]
       (error_message_loop quote rs (markers self) [str ''start or end line not found in *rows*''])"

fun get_bounds_loop ::
  "(nat \<Rightarrow> bool) \<Rightarrow> Row list \<Rightarrow> (pystr \<times> pystr) list \<Rightarrow> (pystr \<times> pystr) option" where
  "get_bounds_loop quote rs [] = None"
| "get_bounds_loop quote rs ((s, e) # ms) =
     (if is_found quote s rs \<and> is_found quote e rs then Some (s, e)
      else get_bounds_loop quote rs ms)"

definition Scope_get_bounds ::
  "(nat \<Rightarrow> bool) \<Rightarrow> Scope \<Rightarrow> Row list \<Rightarrow> error + pystr \<times> pystr" where
  "Scope_get_bounds quote self rs =
     (case get_bounds_loop quote rs (markers self) of
        Some bounds \<Rightarrow> Inr bounds
      | None \<Rightarrow> Inl (ValueError (Text (error_message quote self rs))))"

section \<open>Definition\<close>

text \<open>
  The attributes \<^verbatim>\<open>scope\<close> and \<^verbatim>\<open>reader\<close> hold \<^verbatim>\<open>False\<close> when they are not set:
  \<open>None\<close> here. An argument passed as \<^verbatim>\<open>scope\<close> is a \<^verbatim>\<open>Scope\<close> object or some
  other value; \<^verbatim>\<open>Scope\<close> defines neither \<^verbatim>\<open>__bool__\<close> nor \<^verbatim>\<open>__len__\<close>, so its
  objects are true.
\<close>

record Definition =
  instr :: ParsingInstruction
  scope :: "Scope option"
  reader :: "pystr option"

datatype scope_arg = ScopeObject Scope | Other pyval

fun scope_truthy :: "scope_arg \<Rightarrow> bool" where
  "scope_truthy (ScopeObject sc) = True"
| "scope_truthy (Other v) = truthy v"

fun set_scope :: "scope_arg \<Rightarrow> (Definition, unit) stmt" where
  "set_scope (ScopeObject sc) = modify (\<lambda>self. self\<lparr>scope := Some sc\<rparr>)"
| "set_scope (Other v) = lift (Inl TypeError)"

text \<open>
  \<^verbatim>\<open>FUNC_MAPPER\<close> comes from \<^verbatim>\<open>kep.splitter\<close>, which is not among the sources: its
  keys are the parameter \<open>func_mapper_keys\<close>.
\<close>

fun set_reader :: "pystr list \<Rightarrow> pyval \<Rightarrow> (Definition, unit) stmt" where
  "set_reader func_mapper_keys (PStr funcname) =
     (if funcname \<in> set func_mapper_keys
      then modify (\<lambda>self. self\<lparr>reader := Some funcname\<rparr>)
      else lift (Inl (ValueError (Arg (PStr funcname)))))"
| "set_reader func_mapper_keys funcname = lift (Inl (ValueError (Arg funcname)))"

definition Definition_init :: "pystr list \<Rightarrow> scope_arg \<Rightarrow> pyval \<Rightarrow> error + Definition" where
  "Definition_init func_mapper_keys sc rd =
     (case seq (if scope_truthy sc then set_scope sc
                else modify (\<lambda>self. self\<lparr>scope := None\<rparr>))
            (\<lambda>_. if truthy rd then set_reader func_mapper_keys rd
                 else modify (\<lambda>self. self\<lparr>reader := None\<rparr>))
            \<lparr>instr = ParsingInstruction_init, scope = None, reader = None\<rparr> of
        (Inl err, _) \<Rightarrow> Inl err
      | (Inr _, self) \<Rightarrow> Inr self)"

definition Definition_append ::
  "pyval \<Rightarrow> pyval \<Rightarrow> pyval \<Rightarrow> pyval \<Rightarrow> (Definition, unit) stmt" where
  "Definition_append varname text required_units desc =
     (\<lambda>self. case ParsingInstruction_append varname text required_units desc (instr self) of
               (r, instr') \<Rightarrow> (r, self\<lparr>instr := instr'\<rparr>))"

definition get_varname_mapper :: "Definition \<Rightarrow> odict" where
  "get_varname_mapper self = varname_mapper (instr self)"

definition get_required_labels :: "Definition \<Rightarrow> (pyval \<times> pyval) list" where
  "get_required_labels self = required_labels (instr self)"

definition get_reader :: "Definition \<Rightarrow> pystr option" where
  "get_reader self = reader self"

text \<open>
  \<^verbatim>\<open>list(set(varnames))\<close>: building the set raises \<^verbatim>\<open>TypeError\<close> on a value that is
  not hashable. The result is a list without duplicates; Python leaves its order open,
  here it is the order of first occurrence.
\<close>

definition Definition_get_varnames :: "Definition \<Rightarrow> error + pyval list" where
  "Definition_get_varnames self =
     (let varnames = odict_values (get_varname_mapper self)
      in if list_all hashable varnames then Inr (remdups varnames) else Inl TypeError)"

text \<open>
  With \<^verbatim>\<open>self.scope\<close> equal to \<^verbatim>\<open>False\<close> the attribute lookup
  \<^verbatim>\<open>self.scope.get_bounds\<close> raises \<^verbatim>\<open>AttributeError\<close>.
\<close>

definition Definition_get_bounds ::
  "(nat \<Rightarrow> bool) \<Rightarrow> Definition \<Rightarrow> Row list \<Rightarrow> error + pystr \<times> pystr" where
  "Definition_get_bounds quote self rs =
     (case scope self of
        None \<Rightarrow> Inl AttributeError
      | Some sc \<Rightarrow> Scope_get_bounds quote sc rs)"

section \<open>Specification\<close>

record Specification =
  main :: Definition
  segment_definitions :: "Definition list"

definition Specification_init :: "Definition \<Rightarrow> Specification" where
  "Specification_init default_pdef = \<lparr>main = default_pdef, segment_definitions = []\<rparr>"

definition Specification_append :: "Specification \<Rightarrow> Definition \<Rightarrow> Specification" where
  "Specification_append self pdef =
     self\<lparr>segment_definitions := segment_definitions self @ [pdef]\<rparr>"

definition get_main_parsing_definition :: "Specification \<Rightarrow> Definition" where
  "get_main_parsing_definition self = main self"

definition get_segment_parsing_definitions :: "Specification \<Rightarrow> Definition list" where
  "get_segment_parsing_definitions self = segment_definitions self"

definition all_definitions :: "Specification \<Rightarrow> Definition list" where
  "all_definitions self = [main self] @ segment_definitions self"

fun get_required_labels_loop ::
  "Definition list \<Rightarrow> (pyval \<times> pyval) list \<Rightarrow> (pyval \<times> pyval) list" where
  "get_required_labels_loop [] req = req"
| "get_required_labels_loop (pdef # pdefs) req =
     get_required_labels_loop pdefs (req @ get_required_labels pdef)"

definition Specification_get_required_labels :: "Specification \<Rightarrow> (pyval \<times> pyval) list" where
  "Specification_get_required_labels self = get_required_labels_loop (all_definitions self) []"

text \<open>
  \<^verbatim>\<open>set.add(x)\<close> on a set kept as the list of its members: \<^verbatim>\<open>TypeError\<close> when
  \<^verbatim>\<open>x\<close> is not hashable.
\<close>

definition set_add :: "pyval \<Rightarrow> pyval list \<Rightarrow> error + pyval list" where
  "set_add x members = (if hashable x then Inr (List.insert x members) else Inl TypeError)"

text \<open>
  The loop of \<^verbatim>\<open>Specification.get_varnames\<close>: \<^verbatim>\<open>pdef.get_varnames()\<close> is a list
  object, and that object is what \<^verbatim>\<open>varnames.add\<close> receives.
\<close>

fun get_varnames_loop :: "Definition list \<Rightarrow> pyval list \<Rightarrow> error + pyval list" where
  "get_varnames_loop [] varnames = Inr varnames"
| "get_varnames_loop (pdef # pdefs) varnames =
     (case Definition_get_varnames pdef of
        Inl err \<Rightarrow> Inl err
      | Inr names \<Rightarrow>
          (case set_add (PList names) varnames of
             Inl err \<Rightarrow> Inl err
           | Inr varnames' \<Rightarrow> get_varnames_loop pdefs varnames'))"

definition Specification_get_varnames :: "Specification \<Rightarrow> error + pyval list" where
  "Specification_get_varnames self = get_varnames_loop (all_definitions self) []"

section \<open>Test data\<close>

text \<open>
  \<^verbatim>\<open>mock_rows\<close> of \<^verbatim>\<open>tests/test_rows.py\<close>, and the straight double quote, the
  only quote character in the tests.
\<close>

definition mock_rows :: "Row list" where
  "mock_rows =
     [\<lparr>name = str ''apt extra text'', data = [str ''1'', str ''2'']\<rparr>,
      \<lparr>name = str ''bat aa...ah'', data = [str ''1'', str ''2'']\<rparr>,
      \<lparr>name = str ''can extra text'', data = [str ''1'', str ''2'']\<rparr>,
      \<lparr>name = str ''dot oo...eh'', data = [str ''1'', str ''2'']\<rparr>,
      \<lparr>name = str ''wed more text'', data = [str ''1'', str ''2'']\<rparr>,
      \<lparr>name = str ''zed some text'', data = []\<rparr>]"

definition double_quote :: "nat \<Rightarrow> bool" where
  "double_quote c = (c = 0x22)"

text \<open>
  Rows whose labels carry quotes: \<^verbatim>\<open>"bat" aa\<close> with straight quotes, and
  \<^verbatim>\<open>dot\<close> followed by \<^verbatim>\<open>oo\<close> in curly quotes.
\<close>

definition quoted_rows :: "Row list" where
  "quoted_rows =
     [\<lparr>name = str ''apt extra text'', data = [str ''1'']\<rparr>,
      \<lparr>name = 0x22 # str ''bat'' @ [0x22] @ str '' aa'', data = [str ''1'']\<rparr>,
      \<lparr>name = str ''dot '' @ [0x201C] @ str ''oo'' @ [0x201D], data = []\<rparr>]"

text \<open>
  \<^verbatim>\<open>Definition()\<close> and \<^verbatim>\<open>Definition(scope=Scope("a", "b"))\<close>, as their constructors
  leave them.
\<close>

definition plain_definition :: Definition where
  "plain_definition = \<lparr>instr = ParsingInstruction_init, scope = None, reader = None\<rparr>"

definition scoped_definition :: Definition where
  "scoped_definition =
     \<lparr>instr = ParsingInstruction_init, scope = Some \<lparr>markers = [(str ''a'', str ''b'')]\<rparr>,
      reader = None\<rparr>"

text \<open>
  The instruction after
  \<^verbatim>\<open>append("GDP", ["Gross", "GDP index"], ["bln_rub", "yoy"])\<close> on a new one.
\<close>

definition gdp_instruction :: ParsingInstruction where
  "gdp_instruction =
     \<lparr>varname_mapper = [(PStr (str ''Gross''), PStr (str ''GDP'')),
                         (PStr (str ''GDP index''), PStr (str ''GDP''))],
      required_labels = [(PStr (str ''GDP''), PStr (str ''bln_rub'')),
                         (PStr (str ''GDP''), PStr (str ''yoy''))],
      descriptions = [(PStr (str ''GDP''), PStr (str ''Gross''))]\<rparr>"

text \<open>
  The instruction after \<^verbatim>\<open>append("TRADE", "Turnover", "bln_rub")\<close> and
  \<^verbatim>\<open>append("RETAIL", "Turnover", "bln_rub")\<close> on a new one: the second call takes
  over the only label of the first.
\<close>

definition overwritten_instruction :: ParsingInstruction where
  "overwritten_instruction =
     \<lparr>varname_mapper = [(PStr (str ''Turnover''), PStr (str ''RETAIL''))],
      required_labels = [(PStr (str ''TRADE''), PStr (str ''bln_rub'')),
                         (PStr (str ''RETAIL''), PStr (str ''bln_rub''))],
      descriptions = [(PStr (str ''TRADE''), PStr (str ''Turnover'')),
                      (PStr (str ''RETAIL''), PStr (str ''Turnover''))]\<rparr>"

section \<open>The example objects are what the constructors build\<close>

lemmas stmt_defs = seq_def lift_def ret_def gets_def modify_def

lemmas row_eval = mock_rows_def Row_startswith_def normalize_def double_quote_def str_def

lemma gdp_instruction_append:
  "ParsingInstruction_append (PStr (str ''GDP'')) (PList [PStr (str ''Gross''), PStr (str ''GDP index'')])
     (PList [PStr (str ''bln_rub''), PStr (str ''yoy'')]) (PBool False) ParsingInstruction_init
   = (Inr (), gdp_instruction)"
  by (simp add: ParsingInstruction_append_def verify_inputs_def stmt_defs getitem0_def
      odict_values_def UNITS_values_def str_def ParsingInstruction_init_def gdp_instruction_def)


lemma plain_definition_init:
  "Definition_init fm (Other (PBool False)) (PBool False) = Inr plain_definition"
  by (simp add: Definition_init_def seq_def modify_def plain_definition_def)

lemma scoped_definition_init:
  "Scope_init (str ''a'') (str ''b'') = Inr \<lparr>markers = [(str ''a'', str ''b'')]\<rparr> \<and>
   Definition_init fm (ScopeObject \<lparr>markers = [(str ''a'', str ''b'')]\<rparr>) (PBool False)
     = Inr scoped_definition"
  by (simp add: Scope_init_def add_bounds_def Definition_init_def seq_def modify_def
      scoped_definition_def str_def)

section \<open>Specification: the accessors over all definitions\<close>

lemma segments_of_appends:
  "segment_definitions (foldl Specification_append spec ds) = segment_definitions spec @ ds"
  by (induction ds arbitrary: spec) (simp_all add: Specification_append_def)

lemma main_of_appends: "main (foldl Specification_append spec ds) = main spec"
  by (induction ds arbitrary: spec) (simp_all add: Specification_append_def)

text \<open>
  C1, as the code has it: for a Specification built from a default Definition \<open>d\<close> and
  the segment Definitions \<open>ds\<close> appended one after the other, \<^verbatim>\<open>all_definitions\<close>
  returns the default Definition first, followed by the segment Definitions in the order
  they were appended.
\<close>

theorem all_definitions_default_first:
  "all_definitions (foldl Specification_append (Specification_init d) ds) = d # ds"
  by (simp add: all_definitions_def segments_of_appends main_of_appends Specification_init_def)

text \<open>
  C1 as stated, with the default Definition last, fails for \<^verbatim>\<open>Definition()\<close> as the
  default and one appended segment Definition with a Scope: the list returned is not the
  segments followed by the default, and its last element is not the default.
\<close>

theorem all_definitions_default_last_counterexample:
  "all_definitions (Specification_append (Specification_init plain_definition) scoped_definition)
     \<noteq> segment_definitions
           (Specification_append (Specification_init plain_definition) scoped_definition)
         @ [main (Specification_append (Specification_init plain_definition) scoped_definition)]
   \<and> last (all_definitions
             (Specification_append (Specification_init plain_definition) scoped_definition))
     \<noteq> plain_definition"
  by (simp add: all_definitions_def Specification_append_def Specification_init_def
      plain_definition_def scoped_definition_def)

lemma get_varnames_loop_raises:
  "pdefs \<noteq> [] \<Longrightarrow> get_varnames_loop pdefs varnames = Inl TypeError"
  by (cases pdefs) (simp_all add: Definition_get_varnames_def set_add_def Let_def)

lemma get_varnames_always_raises: "Specification_get_varnames spec = Inl TypeError"
  unfolding Specification_get_varnames_def all_definitions_def
  by (rule get_varnames_loop_raises) simp

text \<open>
  C2: \<^verbatim>\<open>Specification(default=Definition()).get_varnames()\<close> raises \<^verbatim>\<open>TypeError\<close>
  instead of returning the variable names: the loop adds the list returned by
  \<^verbatim>\<open>pdef.get_varnames()\<close> to a set, and a list is not hashable. By
  \<open>get_varnames_always_raises\<close> the same happens for every Specification.
\<close>

theorem get_varnames_raises_TypeError:
  "Specification_get_varnames (Specification_init plain_definition) = Inl TypeError"
  by (rule get_varnames_always_raises)

section \<open>Definition: bounds without a Scope\<close>

text \<open>
  C10: a Definition constructed without a scope (the argument keeps its default
  \<^verbatim>\<open>False\<close>), whatever its reader argument, raises an error from \<^verbatim>\<open>get_bounds\<close>
  for every rows argument.
\<close>

theorem get_bounds_without_scope:
  assumes "Definition_init fm (Other (PBool False)) rd = Inr d"
  shows "Definition_get_bounds quote d rs = Inl AttributeError"
proof -
  have "scope d = None"
    using assms
    by (cases rd; cases "truthy rd")
       (auto simp: Definition_init_def seq_def modify_def lift_def split: if_splits)
  then show ?thesis by (simp add: Definition_get_bounds_def)
qed

theorem get_bounds_without_scope_witness:
  "Definition_init [] (Other (PBool False)) (PBool False) = Inr plain_definition
   \<and> Definition_get_bounds double_quote plain_definition mock_rows = Inl AttributeError"
  using get_bounds_without_scope [of "[]" "PBool False" plain_definition double_quote mock_rows]
    plain_definition_init [of "[]"]
  by simp

section \<open>ParsingInstruction: append\<close>

subsection \<open>An error leaves the instruction as it was\<close>

lemma verify_inputs_state: "snd (verify_inputs varname required_units self) = self"
  by (simp add: verify_inputs_def stmt_defs split: sum.splits)

lemma lift_state: "snd (lift r s) = s"
  by (simp add: lift_def)

lemma ret_state: "snd (ret x s) = s"
  by (simp add: ret_def)

lemma seq_atomic:
  assumes "\<And>s. snd (m s) = s"
    and "\<And>x. \<forall>s e. fst (f x s) = Inl e \<longrightarrow> snd (f x s) = s"
  shows "\<forall>s e. fst (seq m f s) = Inl e \<longrightarrow> snd (seq m f s) = s"
proof (intro allI impI)
  fix s e
  assume raised: "fst (seq m f s) = Inl e"
  obtain r where m: "m s = (r, s)"
    using assms(1) [of s] by (metis prod.collapse)
  show "snd (seq m f s) = s"
  proof (cases r)
    case (Inl e')
    with m show ?thesis by (simp add: seq_def)
  next
    case (Inr x)
    with m raised have "fst (f x s) = Inl e" by (simp add: seq_def)
    with assms(2) have "snd (f x s) = s" by blast
    with m Inr show ?thesis by (simp add: seq_def)
  qed
qed

lemma updates_never_raise:
  "fst (seq (modify f) (\<lambda>_. seq (modify g) (\<lambda>_. modify h)) s) = Inr ()"
  by (simp add: seq_def modify_def)

lemma append_atomic:
  "\<forall>s e. fst (ParsingInstruction_append varname text required_units desc s) = Inl e
     \<longrightarrow> snd (ParsingInstruction_append varname text required_units desc s) = s"
  unfolding ParsingInstruction_append_def
  by (rule seq_atomic, (simp add: verify_inputs_state lift_state ret_state; fail))+
     (simp add: updates_never_raise)

text \<open>
  C8: whenever \<^verbatim>\<open>append\<close> raises, whatever the error and the arguments, the
  instruction is left exactly as it was before the call, so its \<^verbatim>\<open>varname_mapper\<close>,
  \<^verbatim>\<open>required_labels\<close> and \<^verbatim>\<open>descriptions\<close> are unchanged: every statement that can
  raise comes before the three updates.
\<close>

theorem append_atomic_on_error:
  assumes "fst (ParsingInstruction_append varname text required_units desc self) = Inl err"
  shows "snd (ParsingInstruction_append varname text required_units desc self) = self"
  using assms append_atomic by blast

theorem append_atomic_on_error_witness:
  "fst (ParsingInstruction_append (PStr (str ''GDP'')) (PStr (str ''Gross product'')) (PStr (str ''rub'')) (PBool False)
         gdp_instruction) = Inl (ValueError (VariableAlreadyDefined (PStr (str ''GDP''))))
   \<and> snd (ParsingInstruction_append (PStr (str ''GDP'')) (PStr (str ''Gross product'')) (PStr (str ''rub'')) (PBool False)
         gdp_instruction) = gdp_instruction"
proof -
  have e: "fst (ParsingInstruction_append (PStr (str ''GDP'')) (PStr (str ''Gross product'')) (PStr (str ''rub''))
             (PBool False) gdp_instruction) = Inl (ValueError (VariableAlreadyDefined (PStr (str ''GDP''))))"
    by (simp add: ParsingInstruction_append_def verify_inputs_def stmt_defs odict_values_def
        gdp_instruction_def)
  from append_atomic_on_error [OF e] e show ?thesis by simp
qed

subsection \<open>What a call does, in one expression\<close>

lemma append_unfolded:
  "ParsingInstruction_append varname text required_units desc self =
     (if varname \<in> set (odict_values (varname_mapper self))
      then (Inl (ValueError (VariableAlreadyDefined varname)), self)
      else case as_list required_units of Inl e \<Rightarrow> (Inl e, self) | Inr rus \<Rightarrow>
        (case verify_units rus of Inl e \<Rightarrow> (Inl e, self) | Inr u \<Rightarrow>
        (case as_list text of Inl e \<Rightarrow> (Inl e, self) | Inr hs \<Rightarrow>
        (case (if desc = PBool False then getitem0 hs else Inr desc) of
           Inl e \<Rightarrow> (Inl e, self) | Inr desc' \<Rightarrow>
        (case odict_of_pairs [] (map (\<lambda>h. (h, varname)) hs) of
           Inl e \<Rightarrow> (Inl e, self) | Inr vmapper \<Rightarrow>
        (if hashable varname
         then (Inr (), self\<lparr>varname_mapper := odict_update (varname_mapper self) vmapper,
                            required_labels := required_labels self @ map (\<lambda>unit. (varname, unit)) rus,
                            descriptions := odict_setitem varname desc' (descriptions self)\<rparr>)
         else (Inl TypeError, self)))))))"
  by (simp add: ParsingInstruction_append_def verify_inputs_def stmt_defs split: sum.splits)

lemma map_of_setitem: "map_of (odict_setitem k v d) k = Some v"
  by (induction d) auto

lemma verify_units_unknown:
  "\<exists>ru \<in> set rus. ru \<notin> set (map PStr UNITS_values)
    \<Longrightarrow> \<exists>ru. verify_units rus = Inl (ValueError (UnitNotDefined ru))"
  by (induction rus) auto

lemma verify_units_known:
  "set rus \<subseteq> set (map PStr UNITS_values) \<Longrightarrow> verify_units rus = Inr ()"
  by (induction rus) auto

lemma odict_of_pairs_hashable:
  "list_all hashable (map fst ps) \<Longrightarrow> \<exists>d'. odict_of_pairs d ps = Inr d'"
  by (induction ps arbitrary: d) auto

lemmas append_eval = append_unfolded odict_values_def gdp_instruction_def UNITS_values_def
  str_def getitem0_def

text \<open>
  C9: when \<^verbatim>\<open>append\<close> is called without a description and returns, the label text
  is a string or a list or tuple that is not empty, and \<^verbatim>\<open>descriptions\<close> maps the
  variable name to the first header string: to the string itself when the label text is a
  string, to the first item when it is a list or a tuple.
\<close>

theorem append_description_first_header:
  assumes "fst (ParsingInstruction_append varname text required_units (PBool False) self) = Inr ()"
  shows "((\<exists>t. text = PStr t) \<or> (\<exists>h hs. text = PList (h # hs)) \<or> (\<exists>h hs. text = PTuple (h # hs)))
    \<and> (\<forall>t. text = PStr t \<longrightarrow>
          odict_get (descriptions (snd (ParsingInstruction_append varname text required_units
            (PBool False) self))) varname = Some (PStr t))
    \<and> (\<forall>h hs. text = PList (h # hs) \<longrightarrow>
          odict_get (descriptions (snd (ParsingInstruction_append varname text required_units
            (PBool False) self))) varname = Some h)
    \<and> (\<forall>h hs. text = PTuple (h # hs) \<longrightarrow>
          odict_get (descriptions (snd (ParsingInstruction_append varname text required_units
            (PBool False) self))) varname = Some h)"
proof (cases "text")
  case (PStr t)
  with assms show ?thesis
    by (auto simp: append_unfolded getitem0_def odict_get_def map_of_setitem
        split: if_splits sum.splits)
next
  case (PBool b)
  with assms show ?thesis
    by (auto simp: append_unfolded split: if_splits sum.splits)
next
  case PNone
  with assms show ?thesis
    by (auto simp: append_unfolded split: if_splits sum.splits)
next
  case (PList xs)
  with assms show ?thesis
    by (cases xs)
       (auto simp: append_unfolded getitem0_def odict_get_def map_of_setitem
        split: if_splits sum.splits)
next
  case (PTuple xs)
  with assms show ?thesis
    by (cases xs)
       (auto simp: append_unfolded getitem0_def odict_get_def map_of_setitem
        split: if_splits sum.splits)
qed

theorem append_description_first_header_witness:
  "fst (ParsingInstruction_append (PStr (str ''WAGE'')) (PStr (str ''Average wage''))
        (PStr (str ''rub'')) (PBool False) gdp_instruction) = Inr ()
   \<and> odict_get (descriptions (snd (ParsingInstruction_append (PStr (str ''WAGE''))
        (PStr (str ''Average wage'')) (PStr (str ''rub'')) (PBool False) gdp_instruction)))
        (PStr (str ''WAGE'')) = Some (PStr (str ''Average wage''))
   \<and> fst (ParsingInstruction_append (PStr (str ''WAGE''))
        (PList [PStr (str ''Average wage''), PStr (str ''Wages'')])
        (PStr (str ''rub'')) (PBool False) gdp_instruction) = Inr ()
   \<and> odict_get (descriptions (snd (ParsingInstruction_append (PStr (str ''WAGE''))
        (PList [PStr (str ''Average wage''), PStr (str ''Wages'')])
        (PStr (str ''rub'')) (PBool False) gdp_instruction)))
        (PStr (str ''WAGE'')) = Some (PStr (str ''Average wage''))
   \<and> fst (ParsingInstruction_append (PStr (str ''WAGE''))
        (PTuple [PStr (str ''Real wage''), PStr (str ''Wages'')])
        (PStr (str ''rub'')) (PBool False) gdp_instruction) = Inr ()
   \<and> odict_get (descriptions (snd (ParsingInstruction_append (PStr (str ''WAGE''))
        (PTuple [PStr (str ''Real wage''), PStr (str ''Wages'')])
        (PStr (str ''rub'')) (PBool False) gdp_instruction)))
        (PStr (str ''WAGE'')) = Some (PStr (str ''Real wage''))"
proof -
  have s: "fst (ParsingInstruction_append (PStr (str ''WAGE'')) (PStr (str ''Average wage''))
        (PStr (str ''rub'')) (PBool False) gdp_instruction) = Inr ()"
    by (simp add: append_eval)
  have l: "fst (ParsingInstruction_append (PStr (str ''WAGE''))
        (PList [PStr (str ''Average wage''), PStr (str ''Wages'')])
        (PStr (str ''rub'')) (PBool False) gdp_instruction) = Inr ()"
    by (simp add: append_eval)
  have t: "fst (ParsingInstruction_append (PStr (str ''WAGE''))
        (PTuple [PStr (str ''Real wage''), PStr (str ''Wages'')])
        (PStr (str ''rub'')) (PBool False) gdp_instruction) = Inr ()"
    by (simp add: append_eval)
  note ds = append_description_first_header [OF s, THEN conjunct2, THEN conjunct1, rule_format, OF refl]
  note dl = append_description_first_header
    [OF l, THEN conjunct2, THEN conjunct2, THEN conjunct1, rule_format, OF refl]
  note dt = append_description_first_header
    [OF t, THEN conjunct2, THEN conjunct2, THEN conjunct2, rule_format, OF refl]
  show ?thesis
    by (intro conjI) (rule s ds l dl t dt)+
qed

subsection \<open>What the check of the variable name sees\<close>

lemma setitem_entry: "(k, v) \<in> set (odict_setitem k v d)"
  by (induction d) auto

lemma setitem_value: "v \<in> snd ` set (odict_setitem k v d)"
  using setitem_entry [of k v d] by force

lemma setitem_keeps_entry:
  "(k', v) \<in> set d \<Longrightarrow> \<exists>k''. (k'', v) \<in> set (odict_setitem k v d)"
  by (induction d) (auto split: if_splits)

lemma setitem_keeps_value: "v \<in> snd ` set d \<Longrightarrow> v \<in> snd ` set (odict_setitem k v d)"
proof -
  assume "v \<in> snd ` set d"
  then obtain k' where "(k', v) \<in> set d" by auto
  then obtain k'' where "(k'', v) \<in> set (odict_setitem k v d)"
    using setitem_keeps_entry by blast
  then show ?thesis by force
qed

lemma update_keeps_value:
  "v \<in> snd ` set d \<Longrightarrow> \<forall>p \<in> set other. snd p = v \<Longrightarrow> v \<in> snd ` set (odict_update d other)"
proof (induction other arbitrary: d)
  case Nil
  then show ?case by simp
next
  case (Cons p other)
  obtain k w where p: "p = (k, w)" by (cases p)
  with Cons.prems have "w = v" by simp
  with Cons p show ?case by (simp add: setitem_keeps_value)
qed

lemma update_binds_value:
  "other \<noteq> [] \<Longrightarrow> \<forall>p \<in> set other. snd p = v \<Longrightarrow> v \<in> snd ` set (odict_update d other)"
proof (cases other)
  case Nil
  assume "other \<noteq> []"
  with Nil show ?thesis by simp
next
  case (Cons p rest)
  assume all: "\<forall>p \<in> set other. snd p = v"
  obtain k w where p: "p = (k, w)" by (cases p)
  with all Cons have w: "w = v" by simp
  have "v \<in> snd ` set (odict_update (odict_setitem k v d) rest)"
    using all Cons by (intro update_keeps_value setitem_value) simp
  with Cons p w show ?thesis by simp
qed

lemma odict_of_pairs_update: "odict_of_pairs d ps = Inr d' \<Longrightarrow> d' = odict_update d ps"
  by (induction ps arbitrary: d) (auto split: if_splits)

lemma setitem_all_values:
  "\<forall>p \<in> set d. snd p = v \<Longrightarrow> \<forall>p \<in> set (odict_setitem k v d). snd p = v"
  by (induction d) (fastforce split: if_splits)+

lemma setitem_not_empty: "odict_setitem k v d \<noteq> []"
  by (cases d) (auto split: if_splits)

lemma update_all_values:
  "\<forall>p \<in> set ps. snd p = v \<Longrightarrow> \<forall>p \<in> set d. snd p = v
   \<Longrightarrow> (\<forall>p \<in> set (odict_update d ps). snd p = v) \<and> (d \<noteq> [] \<longrightarrow> odict_update d ps \<noteq> [])"
proof (induction ps arbitrary: d)
  case Nil
  then show ?case by simp
next
  case (Cons p ps)
  obtain k w where p: "p = (k, w)" by (cases p)
  with Cons.prems have w: "w = v" by simp
  have "(\<forall>p \<in> set (odict_update (odict_setitem k v d) ps). snd p = v)
      \<and> (odict_setitem k v d \<noteq> [] \<longrightarrow> odict_update (odict_setitem k v d) ps \<noteq> [])"
    using Cons.prems by (intro Cons.IH setitem_all_values) simp_all
  with p w show ?case by (simp add: setitem_not_empty)
qed

lemma of_pairs_values:
  assumes "odict_of_pairs [] ps = Inr d'" and "ps \<noteq> []" and "\<forall>p \<in> set ps. snd p = v"
  shows "d' \<noteq> [] \<and> (\<forall>p \<in> set d'. snd p = v)"
proof -
  from assms(1) have d': "d' = odict_update [] ps" by (simp add: odict_of_pairs_update)
  from assms(2) obtain p rest where ps: "ps = p # rest" by (cases ps) auto
  obtain k w where p: "p = (k, w)" by (cases p)
  with assms(3) ps have w: "w = v" by simp
  have "(\<forall>p \<in> set (odict_update [(k, v)] rest). snd p = v)
      \<and> ([(k, v)] \<noteq> [] \<longrightarrow> odict_update [(k, v)] rest \<noteq> [])"
    using assms(3) ps by (intro update_all_values) simp_all
  with d' ps p w show ?thesis by simp
qed

lemma append_binds_name:
  assumes ok: "fst (ParsingInstruction_append varname text required_units desc self) = Inr ()"
    and hs: "as_list text = Inr hs" "hs \<noteq> []"
  shows "varname \<in> set (odict_values (varname_mapper
           (snd (ParsingInstruction_append varname text required_units desc self))))"
proof -
  from ok hs obtain vmapper where
    vm: "odict_of_pairs [] (map (\<lambda>h. (h, varname)) hs) = Inr vmapper"
    and st: "varname_mapper (snd (ParsingInstruction_append varname text required_units desc self))
              = odict_update (varname_mapper self) vmapper"
    by (auto simp: append_unfolded split: if_splits sum.splits)
  have "vmapper \<noteq> [] \<and> (\<forall>p \<in> set vmapper. snd p = varname)"
    using vm hs(2) by (intro of_pairs_values [of "map (\<lambda>h. (h, varname)) hs"]) simp_all
  then have "varname \<in> snd ` set (odict_update (varname_mapper self) vmapper)"
    by (intro update_binds_value) simp_all
  with st show ?thesis by (simp add: odict_values_def)
qed

text \<open>
  C6, as the code has it: \<^verbatim>\<open>append\<close> raises a \<^verbatim>\<open>ValueError\<close> at once when some
  label text of the instruction's \<^verbatim>\<open>varname_mapper\<close> already maps to the variable name,
  as it does right after an \<^verbatim>\<open>append\<close> of that name with a label text that is not
  empty; and when the required units are a string, list or tuple with a unit code that is
  not among the codes of \<^verbatim>\<open>UNITS\<close>. With a hashable variable name that the instruction
  binds nowhere (no label maps to it, no required label and no description names it),
  known unit codes, and a label text that is a string, list or tuple of hashable items
  which is not empty unless a description is given, it does not raise.
\<close>

theorem append_checks_name_and_units:
  "(varname \<in> set (odict_values (varname_mapper self)) \<longrightarrow>
      fst (ParsingInstruction_append varname text required_units desc self)
        = Inl (ValueError (VariableAlreadyDefined varname)))
   \<and> (\<forall>hs text' units' desc'.
        fst (ParsingInstruction_append varname text required_units desc self) = Inr ()
        \<and> (text = PList hs \<or> text = PTuple hs \<or> (\<exists>t. text = PStr t \<and> hs = [PStr t]))
        \<and> hs \<noteq> [] \<longrightarrow>
        fst (ParsingInstruction_append varname text' units' desc'
               (snd (ParsingInstruction_append varname text required_units desc self)))
          = Inl (ValueError (VariableAlreadyDefined varname)))
   \<and> (\<forall>rus.
        (required_units = PList rus \<or> required_units = PTuple rus
           \<or> (\<exists>u. required_units = PStr u \<and> rus = [PStr u]))
        \<and> (\<exists>ru \<in> set rus. ru \<notin> set (map PStr UNITS_values)) \<longrightarrow>
        (\<exists>msg. fst (ParsingInstruction_append varname text required_units desc self)
           = Inl (ValueError msg)))
   \<and> (\<forall>rus hs. varname \<notin> set (odict_values (varname_mapper self))
          \<and> varname \<notin> fst ` set (required_labels self)
          \<and> varname \<notin> fst ` set (descriptions self)
          \<and> (required_units = PList rus \<or> required_units = PTuple rus
                \<or> (\<exists>u. required_units = PStr u \<and> rus = [PStr u]))
          \<and> set rus \<subseteq> set (map PStr UNITS_values)
          \<and> hashable varname
          \<and> (text = PList hs \<or> text = PTuple hs \<or> (\<exists>t. text = PStr t \<and> hs = [PStr t]))
          \<and> list_all hashable hs \<and> (hs \<noteq> [] \<or> desc \<noteq> PBool False) \<longrightarrow>
        fst (ParsingInstruction_append varname text required_units desc self) = Inr ())"
proof (intro conjI allI impI)
  assume "varname \<in> set (odict_values (varname_mapper self))"
  then show "fst (ParsingInstruction_append varname text required_units desc self)
      = Inl (ValueError (VariableAlreadyDefined varname))"
    by (simp add: append_unfolded)
next
  fix hs text' units' desc'
  assume h: "fst (ParsingInstruction_append varname text required_units desc self) = Inr ()
        \<and> (text = PList hs \<or> text = PTuple hs \<or> (\<exists>t. text = PStr t \<and> hs = [PStr t]))
        \<and> hs \<noteq> []"
  then have "as_list text = Inr hs" by auto
  with h have "varname \<in> set (odict_values (varname_mapper
           (snd (ParsingInstruction_append varname text required_units desc self))))"
    using append_binds_name by blast
  then show "fst (ParsingInstruction_append varname text' units' desc'
               (snd (ParsingInstruction_append varname text required_units desc self)))
          = Inl (ValueError (VariableAlreadyDefined varname))"
    by (simp add: append_unfolded)
next
  fix rus
  assume h: "(required_units = PList rus \<or> required_units = PTuple rus
           \<or> (\<exists>u. required_units = PStr u \<and> rus = [PStr u]))
        \<and> (\<exists>ru \<in> set rus. ru \<notin> set (map PStr UNITS_values))"
  then have l: "as_list required_units = Inr rus" by auto
  from h obtain ru where "verify_units rus = Inl (ValueError (UnitNotDefined ru))"
    using verify_units_unknown by blast
  with l show "\<exists>msg. fst (ParsingInstruction_append varname text required_units desc self)
      = Inl (ValueError msg)"
    by (simp add: append_unfolded)
next
  fix rus hs
  assume h: "varname \<notin> set (odict_values (varname_mapper self))
          \<and> varname \<notin> fst ` set (required_labels self)
          \<and> varname \<notin> fst ` set (descriptions self)
          \<and> (required_units = PList rus \<or> required_units = PTuple rus
                \<or> (\<exists>u. required_units = PStr u \<and> rus = [PStr u]))
          \<and> set rus \<subseteq> set (map PStr UNITS_values)
          \<and> hashable varname
          \<and> (text = PList hs \<or> text = PTuple hs \<or> (\<exists>t. text = PStr t \<and> hs = [PStr t]))
          \<and> list_all hashable hs \<and> (hs \<noteq> [] \<or> desc \<noteq> PBool False)"
  then have lu: "as_list required_units = Inr rus" and lt: "as_list text = Inr hs"
    by auto
  from h have units: "verify_units rus = Inr ()"
    by (simp add: verify_units_known)
  from h have "list_all hashable (map fst (map (\<lambda>h. (h, varname)) hs))"
    by (simp add: comp_def)
  then obtain vm where vm: "odict_of_pairs [] (map (\<lambda>h. (h, varname)) hs) = Inr vm"
    using odict_of_pairs_hashable by blast
  from h have "\<exists>d. (if desc = PBool False then getitem0 hs else Inr desc) = Inr d"
    by (cases hs) (simp_all add: getitem0_def)
  then obtain d where d: "(if desc = PBool False then getitem0 hs else Inr desc) = Inr d"
    by blast
  from h lu lt units vm d
  show "fst (ParsingInstruction_append varname text required_units desc self) = Inr ()"
    by (simp add: append_unfolded)
qed

theorem append_checks_name_and_units_witness:
  "fst (ParsingInstruction_append (PStr (str ''GDP'')) (PStr (str ''Gross product''))
         (PStr (str ''rub'')) (PBool False) gdp_instruction)
     = Inl (ValueError (VariableAlreadyDefined (PStr (str ''GDP''))))
   \<and> fst (ParsingInstruction_append (PStr (str ''WAGE'')) (PStr (str ''Wages''))
         (PStr (str ''yoy'')) (PBool False)
         (snd (ParsingInstruction_append (PStr (str ''WAGE'')) (PStr (str ''Average wage''))
                (PList [PStr (str ''rub''), PStr (str ''yoy'')]) (PBool False) gdp_instruction)))
     = Inl (ValueError (VariableAlreadyDefined (PStr (str ''WAGE''))))
   \<and> (\<exists>msg. fst (ParsingInstruction_append (PStr (str ''WAGE'')) (PStr (str ''Average wage''))
                  (PTuple [PStr (str ''rub''), PStr (str ''usd'')]) (PBool False) gdp_instruction)
              = Inl (ValueError msg))
   \<and> fst (ParsingInstruction_append (PStr (str ''WAGE'')) (PStr (str ''Average wage''))
            (PList [PStr (str ''rub''), PStr (str ''yoy'')]) (PBool False) gdp_instruction)
     = Inr ()
   \<and> fst (ParsingInstruction_append (PStr (str ''WAGE''))
            (PTuple [PStr (str ''Average wage''), PStr (str ''Wages'')])
            (PStr (str ''rub'')) (PStr (str ''Monthly wage'')) gdp_instruction)
     = Inr ()"
proof -
  have a: "PStr (str ''GDP'') \<in> set (odict_values (varname_mapper gdp_instruction))"
    by (simp add: odict_values_def gdp_instruction_def)
  have b: "(PTuple [PStr (str ''rub''), PStr (str ''usd'')]
              = PList [PStr (str ''rub''), PStr (str ''usd'')]
            \<or> PTuple [PStr (str ''rub''), PStr (str ''usd'')]
              = PTuple [PStr (str ''rub''), PStr (str ''usd'')]
            \<or> (\<exists>u. PTuple [PStr (str ''rub''), PStr (str ''usd'')] = PStr u
                  \<and> [PStr (str ''rub''), PStr (str ''usd'')] = [PStr u]))
     \<and> (\<exists>ru \<in> set [PStr (str ''rub''), PStr (str ''usd'')]. ru \<notin> set (map PStr UNITS_values))"
    by (simp add: UNITS_values_def str_def)
  have c: "PStr (str ''WAGE'') \<notin> set (odict_values (varname_mapper gdp_instruction))
     \<and> PStr (str ''WAGE'') \<notin> fst ` set (required_labels gdp_instruction)
     \<and> PStr (str ''WAGE'') \<notin> fst ` set (descriptions gdp_instruction)
     \<and> (PList [PStr (str ''rub''), PStr (str ''yoy'')] = PList [PStr (str ''rub''), PStr (str ''yoy'')]
          \<or> PList [PStr (str ''rub''), PStr (str ''yoy'')]
              = PTuple [PStr (str ''rub''), PStr (str ''yoy'')]
          \<or> (\<exists>u. PList [PStr (str ''rub''), PStr (str ''yoy'')] = PStr u
                \<and> [PStr (str ''rub''), PStr (str ''yoy'')] = [PStr u]))
     \<and> set [PStr (str ''rub''), PStr (str ''yoy'')] \<subseteq> set (map PStr UNITS_values)
     \<and> hashable (PStr (str ''WAGE''))
     \<and> (PStr (str ''Average wage'') = PList [PStr (str ''Average wage'')]
          \<or> PStr (str ''Average wage'') = PTuple [PStr (str ''Average wage'')]
          \<or> (\<exists>t. PStr (str ''Average wage'') = PStr t \<and> [PStr (str ''Average wage'')] = [PStr t]))
     \<and> list_all hashable [PStr (str ''Average wage'')]
     \<and> ([PStr (str ''Average wage'')] \<noteq> [] \<or> PBool False \<noteq> PBool False)"
    by (simp add: odict_values_def gdp_instruction_def UNITS_values_def str_def)
  have c': "PStr (str ''WAGE'') \<notin> set (odict_values (varname_mapper gdp_instruction))
     \<and> PStr (str ''WAGE'') \<notin> fst ` set (required_labels gdp_instruction)
     \<and> PStr (str ''WAGE'') \<notin> fst ` set (descriptions gdp_instruction)
     \<and> (PStr (str ''rub'') = PList [PStr (str ''rub'')]
          \<or> PStr (str ''rub'') = PTuple [PStr (str ''rub'')]
          \<or> (\<exists>u. PStr (str ''rub'') = PStr u \<and> [PStr (str ''rub'')] = [PStr u]))
     \<and> set [PStr (str ''rub'')] \<subseteq> set (map PStr UNITS_values)
     \<and> hashable (PStr (str ''WAGE''))
     \<and> (PTuple [PStr (str ''Average wage''), PStr (str ''Wages'')]
            = PList [PStr (str ''Average wage''), PStr (str ''Wages'')]
          \<or> PTuple [PStr (str ''Average wage''), PStr (str ''Wages'')]
            = PTuple [PStr (str ''Average wage''), PStr (str ''Wages'')]
          \<or> (\<exists>t. PTuple [PStr (str ''Average wage''), PStr (str ''Wages'')] = PStr t
                \<and> [PStr (str ''Average wage''), PStr (str ''Wages'')] = [PStr t]))
     \<and> list_all hashable [PStr (str ''Average wage''), PStr (str ''Wages'')]
     \<and> ([PStr (str ''Average wage''), PStr (str ''Wages'')] \<noteq> []
          \<or> PStr (str ''Monthly wage'') \<noteq> PBool False)"
    by (simp add: odict_values_def gdp_instruction_def UNITS_values_def str_def)
  note T = append_checks_name_and_units
    [of "PStr (str ''WAGE'')" gdp_instruction "PStr (str ''Average wage'')"
        "PList [PStr (str ''rub''), PStr (str ''yoy'')]" "PBool False"]
  have 4: "fst (ParsingInstruction_append (PStr (str ''WAGE'')) (PStr (str ''Average wage''))
            (PList [PStr (str ''rub''), PStr (str ''yoy'')]) (PBool False) gdp_instruction)
     = Inr ()"
    using T [THEN conjunct2, THEN conjunct2, THEN conjunct2, rule_format, OF c] .
  have d: "fst (ParsingInstruction_append (PStr (str ''WAGE'')) (PStr (str ''Average wage''))
            (PList [PStr (str ''rub''), PStr (str ''yoy'')]) (PBool False) gdp_instruction)
       = Inr ()
     \<and> (PStr (str ''Average wage'') = PList [PStr (str ''Average wage'')]
          \<or> PStr (str ''Average wage'') = PTuple [PStr (str ''Average wage'')]
          \<or> (\<exists>t. PStr (str ''Average wage'') = PStr t \<and> [PStr (str ''Average wage'')] = [PStr t]))
     \<and> [PStr (str ''Average wage'')] \<noteq> []"
    using 4 by simp
  have 2: "fst (ParsingInstruction_append (PStr (str ''WAGE'')) (PStr (str ''Wages''))
         (PStr (str ''yoy'')) (PBool False)
         (snd (ParsingInstruction_append (PStr (str ''WAGE'')) (PStr (str ''Average wage''))
                (PList [PStr (str ''rub''), PStr (str ''yoy'')]) (PBool False) gdp_instruction)))
     = Inl (ValueError (VariableAlreadyDefined (PStr (str ''WAGE''))))"
    using T [THEN conjunct2, THEN conjunct1, rule_format, OF d] .
  have 1: "fst (ParsingInstruction_append (PStr (str ''GDP'')) (PStr (str ''Gross product''))
         (PStr (str ''rub'')) (PBool False) gdp_instruction)
     = Inl (ValueError (VariableAlreadyDefined (PStr (str ''GDP''))))"
    using append_checks_name_and_units
      [of "PStr (str ''GDP'')" gdp_instruction "PStr (str ''Gross product'')"
          "PStr (str ''rub'')" "PBool False", THEN conjunct1, rule_format, OF a] .
  have 3: "\<exists>msg. fst (ParsingInstruction_append (PStr (str ''WAGE'')) (PStr (str ''Average wage''))
                  (PTuple [PStr (str ''rub''), PStr (str ''usd'')]) (PBool False) gdp_instruction)
              = Inl (ValueError msg)"
    using append_checks_name_and_units
      [of "PStr (str ''WAGE'')" gdp_instruction "PStr (str ''Average wage'')"
          "PTuple [PStr (str ''rub''), PStr (str ''usd'')]" "PBool False",
       THEN conjunct2, THEN conjunct2, THEN conjunct1, rule_format, OF b] .
  have 5: "fst (ParsingInstruction_append (PStr (str ''WAGE''))
            (PTuple [PStr (str ''Average wage''), PStr (str ''Wages'')])
            (PStr (str ''rub'')) (PStr (str ''Monthly wage'')) gdp_instruction)
     = Inr ()"
    using append_checks_name_and_units
      [of "PStr (str ''WAGE'')" gdp_instruction
          "PTuple [PStr (str ''Average wage''), PStr (str ''Wages'')]"
          "PStr (str ''rub'')" "PStr (str ''Monthly wage'')",
       THEN conjunct2, THEN conjunct2, THEN conjunct2, rule_format, OF c'] .
  show ?thesis
    by (intro conjI) (rule 1 2 3 4 5)+
qed

text \<open>
  C6 as stated fails: with the variable name \<^verbatim>\<open>WAGE\<close>, bound nowhere in the
  instruction, and the known unit code \<^verbatim>\<open>rub\<close>, \<^verbatim>\<open>append("WAGE", [], "rub")\<close>
  raises \<^verbatim>\<open>IndexError\<close> at \<^verbatim>\<open>header_strings[0]\<close>.
\<close>

theorem append_empty_text_counterexample:
  "PStr (str ''WAGE'') \<notin> set (odict_values (varname_mapper gdp_instruction))
   \<and> PStr (str ''WAGE'') \<notin> fst ` set (required_labels gdp_instruction)
   \<and> PStr (str ''WAGE'') \<notin> fst ` set (descriptions gdp_instruction)
   \<and> as_list (PStr (str ''rub'')) = Inr [PStr (str ''rub'')]
   \<and> PStr (str ''rub'') \<in> set (map PStr UNITS_values)
   \<and> fst (ParsingInstruction_append (PStr (str ''WAGE'')) (PList []) (PStr (str ''rub''))
           (PBool False) gdp_instruction) = Inl IndexError"
  by (simp add: append_unfolded odict_values_def gdp_instruction_def UNITS_values_def str_def
      getitem0_def)

text \<open>
  The check looks at the values of \<^verbatim>\<open>varname_mapper\<close> only. A name whose labels were
  all taken over by a later \<^verbatim>\<open>append\<close> is still in \<^verbatim>\<open>required_labels\<close> and
  \<^verbatim>\<open>descriptions\<close>, and a further \<^verbatim>\<open>append\<close> of it is accepted and replaces its
  description, against the comment \<^verbatim>\<open>must define variable only once\<close>.
\<close>

lemma overwritten_instruction_appends:
  "snd (ParsingInstruction_append (PStr (str ''RETAIL'')) (PStr (str ''Turnover''))
          (PStr (str ''bln_rub'')) (PBool False)
          (snd (ParsingInstruction_append (PStr (str ''TRADE'')) (PStr (str ''Turnover''))
                  (PStr (str ''bln_rub'')) (PBool False) ParsingInstruction_init)))
   = overwritten_instruction"
  by (simp add: append_unfolded odict_values_def UNITS_values_def str_def getitem0_def
      ParsingInstruction_init_def overwritten_instruction_def)

lemma append_accepts_overwritten_name:
  "PStr (str ''TRADE'') \<in> fst ` set (required_labels overwritten_instruction)
   \<and> PStr (str ''TRADE'') \<in> fst ` set (descriptions overwritten_instruction)
   \<and> ParsingInstruction_append (PStr (str ''TRADE'')) (PStr (str ''Trade''))
        (PStr (str ''yoy'')) (PBool False) overwritten_instruction
     = (Inr (),
        \<lparr>varname_mapper = [(PStr (str ''Turnover''), PStr (str ''RETAIL'')),
                            (PStr (str ''Trade''), PStr (str ''TRADE''))],
         required_labels = [(PStr (str ''TRADE''), PStr (str ''bln_rub'')),
                            (PStr (str ''RETAIL''), PStr (str ''bln_rub'')),
                            (PStr (str ''TRADE''), PStr (str ''yoy''))],
         descriptions = [(PStr (str ''TRADE''), PStr (str ''Trade'')),
                         (PStr (str ''RETAIL''), PStr (str ''Turnover''))]\<rparr>)"
  by (simp add: append_unfolded odict_values_def UNITS_values_def str_def getitem0_def
      overwritten_instruction_def)

section \<open>Prefix and substring tests\<close>

lemma startswith_iff: "startswith s p \<longleftrightarrow> (\<exists>t. s = p @ t)"
  by (induction s p rule: startswith.induct) auto

lemma contains_iff: "contains s pat \<longleftrightarrow> (\<exists>a b. s = a @ pat @ b)"
proof (induction s)
  case Nil
  then show ?case by auto
next
  case (Cons c cs)
  show ?case
  proof
    assume "contains (c # cs) pat"
    then consider "startswith (c # cs) pat" | "contains cs pat"
      by (auto split: if_splits)
    then show "\<exists>a b. c # cs = a @ pat @ b"
    proof cases
      case 1
      then obtain t where "c # cs = pat @ t" using startswith_iff by blast
      then have "c # cs = [] @ pat @ t" by simp
      then show ?thesis by blast
    next
      case 2
      then obtain a b where "cs = a @ pat @ b" using Cons.IH by blast
      then have "c # cs = (c # a) @ pat @ b" by simp
      then show ?thesis by blast
    qed
  next
    assume "\<exists>a b. c # cs = a @ pat @ b"
    then obtain a b where ab: "c # cs = a @ pat @ b" by blast
    show "contains (c # cs) pat"
    proof (cases a)
      case Nil
      with ab have "startswith (c # cs) pat" using startswith_iff by auto
      then show ?thesis by simp
    next
      case (Cons a0 a')
      with ab have "cs = a' @ pat @ b" by simp
      then have "contains cs pat" using Cons.IH by blast
      then show ?thesis by simp
    qed
  qed
qed

section \<open>Scope: resolving the bounds\<close>

lemma is_found_iff:
  "is_found quote line rs \<longleftrightarrow> (\<exists>r \<in> set rs. Row_startswith quote r line)"
  by (induction rs) auto

lemma get_bounds_loop_first:
  "\<forall>(s', e') \<in> set pre. \<not> (is_found quote s' rs \<and> is_found quote e' rs)
   \<Longrightarrow> is_found quote s rs \<Longrightarrow> is_found quote e rs
   \<Longrightarrow> get_bounds_loop quote rs (pre @ (s, e) # post) = Some (s, e)"
  by (induction pre) auto

lemma get_bounds_loop_none:
  "\<forall>(s, e) \<in> set ms. \<not> (is_found quote s rs \<and> is_found quote e rs)
   \<Longrightarrow> get_bounds_loop quote rs ms = None"
  by (induction ms) auto

lemma error_message_loop_lines:
  "error_message_loop quote rs ms msg =
     msg @ concat (map (\<lambda>(s, e). [found_line (is_found quote s rs) s,
                                    found_line (is_found quote e rs) e]) ms)"
  by (induction ms arbitrary: msg) auto

lemma normalize_quote_character:
  "normalize quote_character s = filter (\<lambda>c. c \<noteq> 0x22 \<and> c \<noteq> 0x201C \<and> c \<noteq> 0x201D) s"
  by (simp add: normalize_def quote_character_def)

lemma is_found_drops_quote_in_line:
  "quote q \<Longrightarrow> is_found quote (a @ q # b) rs = is_found quote (a @ b) rs"
  by (simp add: is_found_iff Row_startswith_def normalize_def)

lemma is_found_drops_quote_in_row:
  "quote q \<Longrightarrow>
   is_found quote line (before @ \<lparr>name = a @ q # b, data = d\<rparr> # after)
     = is_found quote line (before @ \<lparr>name = a @ b, data = d\<rparr> # after)"
  by (simp add: is_found_iff Row_startswith_def normalize_def)

text \<open>
  C7: with the straight double quote and the two curly double quotes as the quote
  characters, a marker is found in the rows iff the label of some row begins with it, quote
  characters left out on both sides; so one of these quote characters in a marker, or in a
  label, can be replaced by another of them without changing what is found.
  \<^verbatim>\<open>get_bounds\<close> returns the first pair of markers, in declared order, whose start and
  end are both found. When no pair has both found it raises a \<^verbatim>\<open>ValueError\<close> whose
  message is a header line followed, for every pair in declared order, by a line for its
  start and a line for its end, each with the marker and whether it was found.
\<close>

theorem Scope_get_bounds_quotes_and_order:
  "(\<forall>line. is_found quote_character line rs \<longleftrightarrow>
      (\<exists>r \<in> set rs. \<exists>rest.
         filter (\<lambda>c. c \<noteq> 0x22 \<and> c \<noteq> 0x201C \<and> c \<noteq> 0x201D) (name r)
           = filter (\<lambda>c. c \<noteq> 0x22 \<and> c \<noteq> 0x201C \<and> c \<noteq> 0x201D) line @ rest))
   \<and> (\<forall>q q' a b. q \<in> {0x22, 0x201C, 0x201D} \<and> q' \<in> {0x22, 0x201C, 0x201D} \<longrightarrow>
        is_found quote_character (a @ q # b) rs = is_found quote_character (a @ q' # b) rs)
   \<and> (\<forall>q q' a b d line before after.
        q \<in> {0x22, 0x201C, 0x201D} \<and> q' \<in> {0x22, 0x201C, 0x201D} \<longrightarrow>
        is_found quote_character line (before @ \<lparr>name = a @ q # b, data = d\<rparr> # after)
          = is_found quote_character line (before @ \<lparr>name = a @ q' # b, data = d\<rparr> # after))
   \<and> (\<forall>pre s e post.
        markers self = pre @ (s, e) # post
        \<and> (\<forall>(s', e') \<in> set pre.
              \<not> (is_found quote_character s' rs \<and> is_found quote_character e' rs))
        \<and> is_found quote_character s rs \<and> is_found quote_character e rs
        \<longrightarrow> Scope_get_bounds quote_character self rs = Inr (s, e))
   \<and> ((\<forall>(s, e) \<in> set (markers self).
          \<not> (is_found quote_character s rs \<and> is_found quote_character e rs))
        \<longrightarrow> Scope_get_bounds quote_character self rs =
              Inl (ValueError (Text (join [0x0A]
                (str ''start or end line not found in *rows*'' #
                 concat (map (\<lambda>(s, e).
                     [str ''is_found: '' @ str_bool (is_found quote_character s rs)
                        @ str '' <'' @ s @ str ''>'',
                      str ''is_found: '' @ str_bool (is_found quote_character e rs)
                        @ str '' <'' @ e @ str ''>''])
                   (markers self)))))))"
proof (intro conjI allI impI)
  fix line
  show "is_found quote_character line rs \<longleftrightarrow>
      (\<exists>r \<in> set rs. \<exists>rest.
         filter (\<lambda>c. c \<noteq> 0x22 \<and> c \<noteq> 0x201C \<and> c \<noteq> 0x201D) (name r)
           = filter (\<lambda>c. c \<noteq> 0x22 \<and> c \<noteq> 0x201C \<and> c \<noteq> 0x201D) line @ rest)"
    by (simp add: is_found_iff Row_startswith_def normalize_quote_character startswith_iff)
next
  fix q q' :: nat and a b
  assume "q \<in> {0x22, 0x201C, 0x201D} \<and> q' \<in> {0x22, 0x201C, 0x201D}"
  then have "quote_character q" "quote_character q'"
    by (auto simp: quote_character_def)
  then show "is_found quote_character (a @ q # b) rs = is_found quote_character (a @ q' # b) rs"
    by (simp add: is_found_drops_quote_in_line)
next
  fix q q' :: nat and a b d line before after
  assume "q \<in> {0x22, 0x201C, 0x201D} \<and> q' \<in> {0x22, 0x201C, 0x201D}"
  then have "quote_character q" "quote_character q'"
    by (auto simp: quote_character_def)
  then show "is_found quote_character line (before @ \<lparr>name = a @ q # b, data = d\<rparr> # after)
          = is_found quote_character line (before @ \<lparr>name = a @ q' # b, data = d\<rparr> # after)"
    by (simp add: is_found_drops_quote_in_row)
next
  fix pre s e post
  assume "markers self = pre @ (s, e) # post
        \<and> (\<forall>(s', e') \<in> set pre.
              \<not> (is_found quote_character s' rs \<and> is_found quote_character e' rs))
        \<and> is_found quote_character s rs \<and> is_found quote_character e rs"
  then show "Scope_get_bounds quote_character self rs = Inr (s, e)"
    by (simp add: Scope_get_bounds_def get_bounds_loop_first)
next
  assume "\<forall>(s, e) \<in> set (markers self).
          \<not> (is_found quote_character s rs \<and> is_found quote_character e rs)"
  then have "get_bounds_loop quote_character rs (markers self) = None"
    by (rule get_bounds_loop_none)
  then show "Scope_get_bounds quote_character self rs =
              Inl (ValueError (Text (join [0x0A]
                (str ''start or end line not found in *rows*'' #
                 concat (map (\<lambda>(s, e).
                     [str ''is_found: '' @ str_bool (is_found quote_character s rs)
                        @ str '' <'' @ s @ str ''>'',
                      str ''is_found: '' @ str_bool (is_found quote_character e rs)
                        @ str '' <'' @ e @ str ''>''])
                   (markers self))))))"
    by (simp add: Scope_get_bounds_def error_message_def error_message_loop_lines found_line_def)
qed

lemmas quoted_eval = quoted_rows_def Row_startswith_def normalize_def quote_character_def str_def

theorem Scope_get_bounds_quotes_and_order_witness:
  "Scope_get_bounds quote_character
     \<lparr>markers = [(str ''apt'', str ''cat''),
                 (0x201C # str ''bat'' @ [0x201D], str ''dot '' @ [0x22] @ str ''oo'' @ [0x22])]\<rparr>
     quoted_rows
     = Inr (0x201C # str ''bat'' @ [0x201D], str ''dot '' @ [0x22] @ str ''oo'' @ [0x22])
   \<and> Scope_get_bounds quote_character \<lparr>markers = [(str ''apt'', 0x22 # str ''cat'')]\<rparr> quoted_rows
     = Inl (ValueError (Text (str ''start or end line not found in *rows*'' @ [0x0A]
          @ str ''is_found: True <apt>'' @ [0x0A] @ str ''is_found: False <'' @ [0x22]
          @ str ''cat>'')))
   \<and> is_found quote_character ([] @ 0x22 # str ''bat'') quoted_rows
     = is_found quote_character ([] @ 0x201C # str ''bat'') quoted_rows
   \<and> is_found quote_character (str ''dot oo'')
        ([] @ \<lparr>name = str ''dot '' @ 0x201C # str ''oo'', data = []\<rparr> # [])
     = is_found quote_character (str ''dot oo'')
        ([] @ \<lparr>name = str ''dot '' @ 0x22 # str ''oo'', data = []\<rparr> # [])"
proof -
  have found: "is_found quote_character (str ''apt'') quoted_rows"
    "\<not> is_found quote_character (str ''cat'') quoted_rows"
    "\<not> is_found quote_character (0x22 # str ''cat'') quoted_rows"
    "is_found quote_character (0x201C # str ''bat'' @ [0x201D]) quoted_rows"
    "is_found quote_character (str ''dot '' @ [0x22] @ str ''oo'' @ [0x22]) quoted_rows"
    by (simp_all add: quoted_eval)
  have 1: "Scope_get_bounds quote_character
     \<lparr>markers = [(str ''apt'', str ''cat''),
                 (0x201C # str ''bat'' @ [0x201D], str ''dot '' @ [0x22] @ str ''oo'' @ [0x22])]\<rparr>
     quoted_rows
     = Inr (0x201C # str ''bat'' @ [0x201D], str ''dot '' @ [0x22] @ str ''oo'' @ [0x22])"
    using Scope_get_bounds_quotes_and_order
      [of quoted_rows
        "\<lparr>markers = [(str ''apt'', str ''cat''),
           (0x201C # str ''bat'' @ [0x201D], str ''dot '' @ [0x22] @ str ''oo'' @ [0x22])]\<rparr>",
       THEN conjunct2, THEN conjunct2, THEN conjunct2, THEN conjunct1, rule_format,
       where pre = "[(str ''apt'', str ''cat'')]" and s = "0x201C # str ''bat'' @ [0x201D]"
         and e = "str ''dot '' @ [0x22] @ str ''oo'' @ [0x22]" and post = "[]"] found
    by simp
  have 2: "Scope_get_bounds quote_character \<lparr>markers = [(str ''apt'', 0x22 # str ''cat'')]\<rparr>
      quoted_rows
     = Inl (ValueError (Text (str ''start or end line not found in *rows*'' @ [0x0A]
          @ str ''is_found: True <apt>'' @ [0x0A] @ str ''is_found: False <'' @ [0x22]
          @ str ''cat>'')))"
    using Scope_get_bounds_quotes_and_order
      [of quoted_rows "\<lparr>markers = [(str ''apt'', 0x22 # str ''cat'')]\<rparr>",
       THEN conjunct2, THEN conjunct2, THEN conjunct2, THEN conjunct2] found
    by (simp add: str_bool_def str_def)
  have 3: "is_found quote_character ([] @ 0x22 # str ''bat'') quoted_rows
     = is_found quote_character ([] @ 0x201C # str ''bat'') quoted_rows"
    using Scope_get_bounds_quotes_and_order
      [of quoted_rows "\<lparr>markers = []\<rparr>", THEN conjunct2, THEN conjunct1, rule_format,
       where q = "0x22" and q' = "0x201C" and a = "[]" and b = "str ''bat''"]
    by simp
  have 4: "is_found quote_character (str ''dot oo'')
        ([] @ \<lparr>name = str ''dot '' @ 0x201C # str ''oo'', data = []\<rparr> # [])
     = is_found quote_character (str ''dot oo'')
        ([] @ \<lparr>name = str ''dot '' @ 0x22 # str ''oo'', data = []\<rparr> # [])"
    using Scope_get_bounds_quotes_and_order
      [of quoted_rows "\<lparr>markers = []\<rparr>", THEN conjunct2, THEN conjunct2, THEN conjunct1,
       rule_format,
       where q = "0x201C" and q' = "0x22" and a = "str ''dot ''" and b = "str ''oo''"
         and d = "[]" and line = "str ''dot oo''" and before = "[]" and after = "[]"]
    by simp
  show ?thesis
    by (intro conjI) (rule 1 2 3 4)+
qed

section \<open>RowStack: popping a segment\<close>

lemma RowStack_pop_general:
  assumes "rows self = pre @ s # mid @ e # post"
    and "\<forall>r \<in> set pre. \<not> Row_startswith quote r start"
    and "Row_startswith quote s start"
    and "\<forall>r \<in> set mid. \<not> Row_startswith quote r en"
    and "Row_startswith quote e en"
  shows "RowStack_pop quote start en self = Some (s # mid, self\<lparr>rows := e # post\<rparr>)"
proof -
  have d1: "dropWhile (\<lambda>r. \<not> Row_startswith quote r start) (rows self) = s # mid @ e # post"
    using assms(1,2,3) by simp
  have d2: "dropWhile (\<lambda>r. \<not> Row_startswith quote r en) (mid @ e # post) = e # post"
    using assms(4,5) by simp
  have t2: "takeWhile (\<lambda>r. \<not> Row_startswith quote r en) (mid @ e # post) = mid"
    using assms(4,5) by simp
  show ?thesis
    by (simp add: RowStack_pop_def d1 d2 t2)
qed

text \<open>
  C3: when the rows are some rows that do not match the start marker, a row that does, some
  rows that do not match the end marker and a row that does, \<^verbatim>\<open>pop\<close> returns the run
  from the start row up to the row before the end marker's row, and the remaining rows begin
  with the end marker's row. On the six rows of the tests, \<^verbatim>\<open>pop("bat", "dot")\<close> returns
  the rows \<^verbatim>\<open>bat\<close> and \<^verbatim>\<open>can\<close> and leaves \<^verbatim>\<open>dot\<close>, \<^verbatim>\<open>wed\<close>, \<^verbatim>\<open>zed\<close>;
  \<^verbatim>\<open>pop("apt", "wed")\<close> returns four rows and leaves \<^verbatim>\<open>wed\<close>, \<^verbatim>\<open>zed\<close>.
\<close>

theorem RowStack_pop_segment:
  "(\<forall>pre s mid e post.
      rows self = pre @ s # mid @ e # post
      \<and> (\<forall>r \<in> set pre. \<not> Row_startswith quote r start)
      \<and> Row_startswith quote s start
      \<and> (\<forall>r \<in> set mid. \<not> Row_startswith quote r en)
      \<and> Row_startswith quote e en
      \<longrightarrow> RowStack_pop quote start en self = Some (s # mid, self\<lparr>rows := e # post\<rparr>))
   \<and> RowStack_pop double_quote (str ''bat'') (str ''dot'') \<lparr>rows = mock_rows\<rparr>
       = Some ([\<lparr>name = str ''bat aa...ah'', data = [str ''1'', str ''2'']\<rparr>,
                \<lparr>name = str ''can extra text'', data = [str ''1'', str ''2'']\<rparr>],
               \<lparr>rows = [\<lparr>name = str ''dot oo...eh'', data = [str ''1'', str ''2'']\<rparr>,
                        \<lparr>name = str ''wed more text'', data = [str ''1'', str ''2'']\<rparr>,
                        \<lparr>name = str ''zed some text'', data = []\<rparr>]\<rparr>)
   \<and> (\<exists>segment. length segment = 4
        \<and> RowStack_pop double_quote (str ''apt'') (str ''wed'') \<lparr>rows = mock_rows\<rparr>
            = Some (segment, \<lparr>rows = [\<lparr>name = str ''wed more text'', data = [str ''1'', str ''2'']\<rparr>,
                                     \<lparr>name = str ''zed some text'', data = []\<rparr>]\<rparr>))"
proof (intro conjI allI impI)
  fix pre s mid e post
  assume "rows self = pre @ s # mid @ e # post
      \<and> (\<forall>r \<in> set pre. \<not> Row_startswith quote r start)
      \<and> Row_startswith quote s start
      \<and> (\<forall>r \<in> set mid. \<not> Row_startswith quote r en)
      \<and> Row_startswith quote e en"
  then show "RowStack_pop quote start en self = Some (s # mid, self\<lparr>rows := e # post\<rparr>)"
    using RowStack_pop_general by blast
next
  show "RowStack_pop double_quote (str ''bat'') (str ''dot'') \<lparr>rows = mock_rows\<rparr>
       = Some ([\<lparr>name = str ''bat aa...ah'', data = [str ''1'', str ''2'']\<rparr>,
                \<lparr>name = str ''can extra text'', data = [str ''1'', str ''2'']\<rparr>],
               \<lparr>rows = [\<lparr>name = str ''dot oo...eh'', data = [str ''1'', str ''2'']\<rparr>,
                        \<lparr>name = str ''wed more text'', data = [str ''1'', str ''2'']\<rparr>,
                        \<lparr>name = str ''zed some text'', data = []\<rparr>]\<rparr>)"
    by (simp add: RowStack_pop_def row_eval)
next
  have "RowStack_pop double_quote (str ''apt'') (str ''wed'') \<lparr>rows = mock_rows\<rparr>
      = Some (take 4 mock_rows, \<lparr>rows = [\<lparr>name = str ''wed more text'', data = [str ''1'', str ''2'']\<rparr>,
                                     \<lparr>name = str ''zed some text'', data = []\<rparr>]\<rparr>)"
    by (simp add: RowStack_pop_def row_eval)
  moreover have "length (take 4 mock_rows) = 4"
    by (simp add: mock_rows_def)
  ultimately show "\<exists>segment. length segment = 4
        \<and> RowStack_pop double_quote (str ''apt'') (str ''wed'') \<lparr>rows = mock_rows\<rparr>
            = Some (segment, \<lparr>rows = [\<lparr>name = str ''wed more text'', data = [str ''1'', str ''2'']\<rparr>,
                                     \<lparr>name = str ''zed some text'', data = []\<rparr>]\<rparr>)"
    by blast
qed

theorem RowStack_pop_segment_witness:
  "RowStack_pop double_quote (str ''can'') (str ''wed'') \<lparr>rows = mock_rows\<rparr>
     = Some ([\<lparr>name = str ''can extra text'', data = [str ''1'', str ''2'']\<rparr>,
              \<lparr>name = str ''dot oo...eh'', data = [str ''1'', str ''2'']\<rparr>],
             \<lparr>rows = [\<lparr>name = str ''wed more text'', data = [str ''1'', str ''2'']\<rparr>,
                      \<lparr>name = str ''zed some text'', data = []\<rparr>]\<rparr>)"
  using RowStack_pop_segment
    [of "\<lparr>rows = mock_rows\<rparr>" double_quote "str ''can''" "str ''wed''",
     THEN conjunct1, rule_format,
     of "[\<lparr>name = str ''apt extra text'', data = [str ''1'', str ''2'']\<rparr>,
          \<lparr>name = str ''bat aa...ah'', data = [str ''1'', str ''2'']\<rparr>]"
        "\<lparr>name = str ''can extra text'', data = [str ''1'', str ''2'']\<rparr>"
        "[\<lparr>name = str ''dot oo...eh'', data = [str ''1'', str ''2'']\<rparr>]"
        "\<lparr>name = str ''wed more text'', data = [str ''1'', str ''2'']\<rparr>"
        "[\<lparr>name = str ''zed some text'', data = []\<rparr>]"]
  by (simp add: row_eval)

section \<open>Row: resolving the variable and the unit\<close>

lemma hits_keys:
  "filter (\<lambda>k. Row_startswith quote row k) (map fst m)
     = map fst (filter (\<lambda>(text, varname). Row_startswith quote row text) m)"
  by (induction m) auto

text \<open>
  C4: with no mapping key that the row's label starts with, variable resolution returns
  "not found" and no error; with exactly one such key it returns the variable name of
  that key; with more than one it raises an error. For the row labelled \<^verbatim>\<open>1. abcd\<close>:
  the keys \<^verbatim>\<open>1. a\<close> and \<^verbatim>\<open>1. ab\<close> together raise, \<^verbatim>\<open>1. ab\<close> alone resolves to its
  variable, and \<^verbatim>\<open>bc\<close> is not found.
\<close>

theorem Row_get_varname_hits:
  "(filter (\<lambda>k. Row_startswith quote row k) (map fst m) = []
      \<longrightarrow> Row_get_varname quote row m = Inr None)
   \<and> (\<forall>key. filter (\<lambda>k. Row_startswith quote row k) (map fst m) = [key]
      \<longrightarrow> (\<exists>varname. (key, varname) \<in> set m
            \<and> Row_get_varname quote row m = Inr (Some varname)))
   \<and> (1 < length (filter (\<lambda>k. Row_startswith quote row k) (map fst m))
      \<longrightarrow> (\<exists>msg. Row_get_varname quote row m = Inl (ValueError msg)))
   \<and> Row_get_varname double_quote \<lparr>name = str ''1. abcd'', data = []\<rparr>
        [(str ''1. a'', str ''X''), (str ''1. ab'', str ''Y'')] = Inl (ValueError (MultipleEntries [str ''X'', str ''Y'']))
   \<and> Row_get_varname double_quote \<lparr>name = str ''1. abcd'', data = []\<rparr> [(str ''1. ab'', str ''X'')]
        = Inr (Some (str ''X''))
   \<and> Row_get_varname double_quote \<lparr>name = str ''1. abcd'', data = []\<rparr> [(str ''bc'', str ''X'')]
        = Inr None"
proof (intro conjI allI impI)
  assume "filter (\<lambda>k. Row_startswith quote row k) (map fst m) = []"
  then have "filter (\<lambda>(text, varname). Row_startswith quote row text) m = []"
    by (simp add: hits_keys)
  then show "Row_get_varname quote row m = Inr None"
    by (simp add: Row_get_varname_def)
next
  fix key
  assume "filter (\<lambda>k. Row_startswith quote row k) (map fst m) = [key]"
  then have "map fst (filter (\<lambda>(text, varname). Row_startswith quote row text) m) = [key]"
    by (simp add: hits_keys)
  then obtain varname
    where hit: "filter (\<lambda>(text, varname). Row_startswith quote row text) m = [(key, varname)]"
    by auto
  then have "(key, varname) \<in> set (filter (\<lambda>(text, varname). Row_startswith quote row text) m)"
    by simp
  then have "(key, varname) \<in> set m"
    by simp
  moreover from hit have "Row_get_varname quote row m = Inr (Some varname)"
    by (simp add: Row_get_varname_def)
  ultimately show "\<exists>varname. (key, varname) \<in> set m
            \<and> Row_get_varname quote row m = Inr (Some varname)"
    by blast
next
  assume "1 < length (filter (\<lambda>k. Row_startswith quote row k) (map fst m))"
  then have "1 < length (filter (\<lambda>(text, varname). Row_startswith quote row text) m)"
    by (simp add: hits_keys)
  then obtain h1 h2 hs
    where "filter (\<lambda>(text, varname). Row_startswith quote row text) m = h1 # h2 # hs"
    by (cases "filter (\<lambda>(text, varname). Row_startswith quote row text) m" rule: list.exhaust;
        simp; metis list.exhaust)
  then show "\<exists>msg. Row_get_varname quote row m = Inl (ValueError msg)"
    by (simp add: Row_get_varname_def split: prod.splits)
next
  show "Row_get_varname double_quote \<lparr>name = str ''1. abcd'', data = []\<rparr>
        [(str ''1. a'', str ''X''), (str ''1. ab'', str ''Y'')] = Inl (ValueError (MultipleEntries [str ''X'', str ''Y'']))"
    by (simp add: Row_get_varname_def row_eval)
next
  show "Row_get_varname double_quote \<lparr>name = str ''1. abcd'', data = []\<rparr> [(str ''1. ab'', str ''X'')]
        = Inr (Some (str ''X''))"
    by (simp add: Row_get_varname_def row_eval)
next
  show "Row_get_varname double_quote \<lparr>name = str ''1. abcd'', data = []\<rparr> [(str ''bc'', str ''X'')]
        = Inr None"
    by (simp add: Row_get_varname_def row_eval)
qed

theorem Row_get_varname_hits_witness:
  "Row_get_varname double_quote \<lparr>name = str ''1. abcd'', data = []\<rparr>
     [(str ''2. ab'', str ''W''), (str ''bc'', str ''V'')] = Inr None
   \<and> (\<exists>varname. (str ''1. ab'', varname) \<in> set [(str ''1. ab'', str ''X''), (str ''2. ab'', str ''W'')]
        \<and> Row_get_varname double_quote \<lparr>name = str ''1. abcd'', data = []\<rparr>
             [(str ''1. ab'', str ''X''), (str ''2. ab'', str ''W'')] = Inr (Some varname))
   \<and> (\<exists>msg. Row_get_varname double_quote \<lparr>name = str ''1. abcd'', data = []\<rparr>
             [(str ''1. ab'', str ''X''), (str ''2. ab'', str ''W''), (str ''1.'', str ''U'')] = Inl (ValueError msg))"
proof -
  have 1: "Row_get_varname double_quote \<lparr>name = str ''1. abcd'', data = []\<rparr>
     [(str ''2. ab'', str ''W''), (str ''bc'', str ''V'')] = Inr None"
    using Row_get_varname_hits
      [of double_quote "\<lparr>name = str ''1. abcd'', data = []\<rparr>" "[(str ''2. ab'', str ''W''), (str ''bc'', str ''V'')]",
       THEN conjunct1]
    by (simp add: row_eval)
  have 2: "\<exists>varname. (str ''1. ab'', varname) \<in> set [(str ''1. ab'', str ''X''), (str ''2. ab'', str ''W'')]
        \<and> Row_get_varname double_quote \<lparr>name = str ''1. abcd'', data = []\<rparr>
             [(str ''1. ab'', str ''X''), (str ''2. ab'', str ''W'')] = Inr (Some varname)"
    using Row_get_varname_hits
      [of double_quote "\<lparr>name = str ''1. abcd'', data = []\<rparr>" "[(str ''1. ab'', str ''X''), (str ''2. ab'', str ''W'')]",
       THEN conjunct2, THEN conjunct1, rule_format, of "str ''1. ab''"]
    by (simp add: row_eval)
  have 3: "\<exists>msg. Row_get_varname double_quote \<lparr>name = str ''1. abcd'', data = []\<rparr>
             [(str ''1. ab'', str ''X''), (str ''2. ab'', str ''W''), (str ''1.'', str ''U'')] = Inl (ValueError msg)"
    using Row_get_varname_hits
      [of double_quote "\<lparr>name = str ''1. abcd'', data = []\<rparr>"
          "[(str ''1. ab'', str ''X''), (str ''2. ab'', str ''W''), (str ''1.'', str ''U'')]",
       THEN conjunct2, THEN conjunct2, THEN conjunct1]
    by (simp add: row_eval)
  from 1 2 3 show ?thesis by blast
qed

lemma Row_get_unit_first:
  "\<forall>(t, u) \<in> set pre. \<not> contains (name row) t \<Longrightarrow> contains (name row) pat
   \<Longrightarrow> Row_get_unit row (pre @ (pat, unit) # post) = Some unit"
  by (induction pre) auto

text \<open>
  C5: unit resolution returns the unit code of the first pattern, in declared order, that
  occurs as a substring of the row's label. With the patterns \<^verbatim>\<open>%\<close> for \<^verbatim>\<open>pct\<close> and
  then \<^verbatim>\<open>% change\<close> for \<^verbatim>\<open>pct_chg\<close>, the label \<^verbatim>\<open>1. abcd, % change\<close> resolves to
  \<^verbatim>\<open>pct\<close>.
\<close>

theorem Row_get_unit_first_pattern:
  "(\<forall>pre pat unit post.
      lexicon = pre @ (pat, unit) # post
      \<and> (\<forall>(t, u) \<in> set pre. \<not> (\<exists>a b. name row = a @ t @ b))
      \<and> (\<exists>a b. name row = a @ pat @ b)
      \<longrightarrow> Row_get_unit row lexicon = Some unit)
   \<and> Row_get_unit \<lparr>name = str ''1. abcd, % change'', data = []\<rparr>
        [(str ''%'', str ''pct''), (str ''% change'', str ''pct_chg'')] = Some (str ''pct'')"
proof (intro conjI allI impI)
  fix pre pat unit post
  assume "lexicon = pre @ (pat, unit) # post
      \<and> (\<forall>(t, u) \<in> set pre. \<not> (\<exists>a b. name row = a @ t @ b))
      \<and> (\<exists>a b. name row = a @ pat @ b)"
  then show "Row_get_unit row lexicon = Some unit"
    using Row_get_unit_first [of pre row pat unit post]
    by (simp add: contains_iff)
next
  show "Row_get_unit \<lparr>name = str ''1. abcd, % change'', data = []\<rparr>
        [(str ''%'', str ''pct''), (str ''% change'', str ''pct_chg'')] = Some (str ''pct'')"
    by (simp add: str_def)
qed

theorem Row_get_unit_first_pattern_witness:
  "Row_get_unit \<lparr>name = str ''Rate, %'', data = []\<rparr>
     [(str ''rub'', str ''rub''), (str ''%'', str ''pct''), (str ''Rate'', str ''rog'')]
   = Some (str ''pct'')"
proof -
  have absent: "\<not> (\<exists>a b. str ''Rate, %'' = a @ str ''rub'' @ b)"
    unfolding contains_iff [symmetric] by (simp add: str_def)
  have present: "\<exists>a b. str ''Rate, %'' = a @ str ''%'' @ b"
    unfolding contains_iff [symmetric] by (simp add: str_def)
  show ?thesis
    using Row_get_unit_first_pattern
      [of "[(str ''rub'', str ''rub''), (str ''%'', str ''pct''), (str ''Rate'', str ''rog'')]"
          "\<lparr>name = str ''Rate, %'', data = []\<rparr>",
       THEN conjunct1, rule_format,
       of "[(str ''rub'', str ''rub'')]" "str ''%''" "str ''pct''" "[(str ''Rate'', str ''rog'')]"]
      absent present
    by simp
qed


end
